theory Spec2Isabelle
  imports Main "HOL-Library.Sublist"
begin

section \<open>JavaScript values shared by the models\<close>

text \<open>
  Strings are lists of code units.  A thrown \<^verbatim>\<open>new Error(msg)\<close> is the value
  \<open>Error msg\<close>; a function that can throw returns \<open>js_error + 'a\<close> with the
  exception on the left.  A promise is modelled by how it settles.
\<close>

datatype js_error = Error string | TypeError string

datatype 'a promise = Fulfilled 'a | Rejected js_error

text \<open>\<^verbatim>\<open>a || b\<close> on an optional string: the empty string and \<^verbatim>\<open>undefined\<close> are falsy.\<close>

definition str_or :: "string option \<Rightarrow> string \<Rightarrow> string" where
  "str_or a b = (case a of None \<Rightarrow> b | Some s \<Rightarrow> if s = [] then b else s)"

text \<open>Truthiness of an optional boolean (\<^verbatim>\<open>!!x\<close>): \<^verbatim>\<open>undefined\<close> is falsy.\<close>

definition truthy_bool :: "bool option \<Rightarrow> bool" where
  "truthy_bool b = (case b of None \<Rightarrow> False | Some v \<Rightarrow> v)"

section \<open>ConsumeSharedPlugin: normalising the \<^verbatim>\<open>consumes\<close> configuration\<close>

text \<open>
  \<^verbatim>\<open>src/lib/sharing/ConsumeSharedPlugin.js\<close>, constructor (lines 55-103).  The two arrow
  functions handed to \<^verbatim>\<open>parseOptions\<close> are modelled; \<^verbatim>\<open>parseOptions\<close> itself,
  \<^verbatim>\<open>isRequiredVersion\<close> and \<^verbatim>\<open>parseRange\<close> live outside the given sources, so the
  latter two are parameters.  \<open>'r\<close> is the type of a parsed version range.
\<close>

datatype 'r required_version = RV_undefined | RV_false | RV_range 'r

record 'r ConsumeOptions =
  import :: "string option"
  shareScope :: string
  shareKey :: string
  requiredVersion :: "'r required_version"
  strictVersion :: bool
  packageName :: "string option"
  singleton :: bool
  eager :: bool

text \<open>A short-hand value is a string or an array (the mapper throws on an array).\<close>

datatype simple_item = ItemString string | ItemArray "string list"

text \<open>A long-hand value: every property may be missing; \<^verbatim>\<open>import\<close> and
  \<^verbatim>\<open>requiredVersion\<close> may also be \<^verbatim>\<open>false\<close>.\<close>

datatype import_setting = Import_missing | Import_false | Import_string string

datatype version_setting = Version_missing | Version_false | Version_string string

record ConsumesConfig =
  item_import :: import_setting
  item_shareScope :: "string option"
  item_shareKey :: "string option"
  item_requiredVersion :: version_setting
  item_strictVersion :: "bool option"
  item_packageName :: "string option"
  item_singleton :: "bool option"
  item_eager :: "bool option"

text \<open>Lines 57-86: the short-hand mapper \<^verbatim>\<open>(item, key) => ...\<close>.\<close>

definition consumes_normalizeSimple ::
  "(string \<Rightarrow> bool) \<Rightarrow> (string \<Rightarrow> 'r) \<Rightarrow> string option \<Rightarrow> simple_item \<Rightarrow> string
     \<Rightarrow> js_error + 'r ConsumeOptions" where
  "consumes_normalizeSimple isRequiredVersion parseRange options_shareScope item key =
     (case item of
        ItemArray _ \<Rightarrow> Inl (Error ''Unexpected array in options'')
      | ItemString s \<Rightarrow>
          Inr (if s = key \<or> \<not> isRequiredVersion s
               then \<lparr> import = Some key,
                      shareScope = str_or options_shareScope ''default'',
                      shareKey = key,
                      requiredVersion = RV_undefined,
                      strictVersion = False,
                      packageName = None,
                      singleton = False,
                      eager = False \<rparr>
               else \<lparr> import = Some key,
                      shareScope = str_or options_shareScope ''default'',
                      shareKey = key,
                      requiredVersion = RV_range (parseRange s),
                      strictVersion = True,
                      packageName = None,
                      singleton = False,
                      eager = False \<rparr>))"

text \<open>Lines 87-102: the long-hand mapper \<^verbatim>\<open>(item, key) => ({...})\<close>.\<close>

definition consumes_normalizeOptions ::
  "(string \<Rightarrow> 'r) \<Rightarrow> string option \<Rightarrow> ConsumesConfig \<Rightarrow> string \<Rightarrow> 'r ConsumeOptions" where
  "consumes_normalizeOptions parseRange options_shareScope item key =
     \<lparr> import =
         (case item_import item of
            Import_false \<Rightarrow> None
          | Import_missing \<Rightarrow> Some key
          | Import_string s \<Rightarrow> Some (if s = [] then key else s)),
       shareScope =
         str_or (item_shareScope item) (str_or options_shareScope ''default''),
       shareKey = str_or (item_shareKey item) key,
       requiredVersion =
         (case item_requiredVersion item of
            Version_string s \<Rightarrow> RV_range (parseRange s)
          | Version_false \<Rightarrow> RV_false
          | Version_missing \<Rightarrow> RV_undefined),
       strictVersion =
         (case item_strictVersion item of
            Some b \<Rightarrow> b
          | None \<Rightarrow> item_import item \<noteq> Import_false \<and> \<not> truthy_bool (item_singleton item)),
       packageName = item_packageName item,
       singleton = truthy_bool (item_singleton item),
       eager = truthy_bool (item_eager item) \<rparr>"

section \<open>ContainerReferencePlugin\<close>

text \<open>
  \<^verbatim>\<open>src/unnamed/part_000\<close>, class \<^verbatim>\<open>ContainerReferencePlugin\<close> (lines 467-584).
  \<^verbatim>\<open>this._remotes\<close> is the ordered list of \<^verbatim>\<open>[key, config]\<close> pairs that
  \<^verbatim>\<open>parseOptions\<close> returns.
\<close>

record RemoteConfig =
  external :: "string list"
  remote_shareScope :: string

text \<open>Lines 479-488: the two mappers of the constructor.  An item (or its
  \<^verbatim>\<open>external\<close> property) is one string or an array of strings.\<close>

datatype remote_item = RemoteString string | RemoteArray "string list"

definition remotes_normalizeSimple :: "string option \<Rightarrow> remote_item \<Rightarrow> RemoteConfig" where
  "remotes_normalizeSimple options_shareScope item =
     \<lparr> external = (case item of RemoteArray xs \<Rightarrow> xs | RemoteString x \<Rightarrow> [x]),
       remote_shareScope = str_or options_shareScope ''default'' \<rparr>"

definition remotes_normalizeOptions ::
  "string option \<Rightarrow> remote_item \<Rightarrow> string option \<Rightarrow> RemoteConfig" where
  "remotes_normalizeOptions options_shareScope item_external item_scope =
     \<lparr> external = (case item_external of RemoteArray xs \<Rightarrow> xs | RemoteString x \<Rightarrow> [x]),
       remote_shareScope = str_or item_scope (str_or options_shareScope ''default'') \<rparr>"

text \<open>A number inside a template literal (\<^verbatim>\<open>`${i}`\<close>) prints in decimal.\<close>

definition digit_char :: "nat \<Rightarrow> char" where
  "digit_char d = ''0123456789'' ! d"

fun show_nat :: "nat \<Rightarrow> string" where
  "show_nat n =
     (if n < 10 then [digit_char n] else show_nat (n div 10) @ [digit_char (n mod 10)])"

declare show_nat.simps [simp del]

text \<open>The template \<^verbatim>\<open>`webpack/container/reference/${key}${i ? `/fallback-${i}` : ""}`\<close>
  (lines 507 and 553-555).\<close>

definition reference_name :: "string \<Rightarrow> nat \<Rightarrow> string" where
  "reference_name key i =
     ''webpack/container/reference/'' @ key @
       (if i \<noteq> 0 then ''/fallback-'' @ show_nat i else [])"

text \<open>Lines 504-510: the inner loop over \<^verbatim>\<open>config.external\<close>; \<open>i\<close> is the counter the
  loop increments only after a registration, \<open>m\<close> the object \<^verbatim>\<open>remoteExternals\<close>.\<close>

fun register_externals ::
  "string \<Rightarrow> string list \<Rightarrow> nat \<Rightarrow> (string \<rightharpoonup> string) \<Rightarrow> (string \<rightharpoonup> string)" where
  "register_externals key [] i m = m"
| "register_externals key (e # es) i m =
     (if prefix ''internal '' e then register_externals key es i m
      else register_externals key es (Suc i) (m(reference_name key i \<mapsto> e)))"

text \<open>Lines 502-511: the outer loop over the remotes, each starting at \<^verbatim>\<open>i = 0\<close>.\<close>

fun collect_remoteExternals ::
  "(string \<times> RemoteConfig) list \<Rightarrow> (string \<rightharpoonup> string) \<Rightarrow> (string \<rightharpoonup> string)" where
  "collect_remoteExternals [] m = m"
| "collect_remoteExternals ((key, config) # rest) m =
     collect_remoteExternals rest (register_externals key (external config) 0 m)"

definition remoteExternals :: "(string \<times> RemoteConfig) list \<Rightarrow> (string \<rightharpoonup> string)" where
  "remoteExternals remotes = collect_remoteExternals remotes Map.empty"

text \<open>The arguments of \<^verbatim>\<open>new RemoteModule(request, externalRequests, internalRequest,
  shareScope)\<close> (lines 548-559).\<close>

record RemoteModule =
  rm_request :: string
  externalRequests :: "string list"
  internalRequest :: string
  rm_shareScope :: string

text \<open>Lines 544-546: the test of one remote key against the request.  \<^verbatim>\<open>charCodeAt\<close>
  past the end is \<^verbatim>\<open>NaN\<close>, which differs from the code of \<^verbatim>\<open>/\<close>.\<close>

definition request_matches :: "string \<Rightarrow> string \<Rightarrow> bool" where
  "request_matches key request =
     (prefix key request \<and>
      (length request = length key \<or>
       (length key < length request \<and> request ! length key = CHR ''/'')))"

text \<open>Lines 550-556: the callback of \<^verbatim>\<open>config.external.map((external, i) => ...)\<close>;
  \<open>i\<close> is the position in the whole list.\<close>

definition external_request :: "string \<Rightarrow> nat \<times> string \<Rightarrow> string" where
  "external_request key ie =
     (if prefix ''internal '' (snd ie) then drop 9 (snd ie) else reference_name key (fst ie))"

definition new_RemoteModule :: "string \<Rightarrow> string \<Rightarrow> RemoteConfig \<Rightarrow> RemoteModule" where
  "new_RemoteModule request key config =
     \<lparr> rm_request = request,
       externalRequests = map (external_request key) (enumerate 0 (external config)),
       internalRequest = ''.'' @ drop (length key) request,
       rm_shareScope = remote_shareScope config \<rparr>"

text \<open>Lines 542-561: the loop over the remotes returns at the first key that matches.\<close>

fun factorize_loop :: "(string \<times> RemoteConfig) list \<Rightarrow> string \<Rightarrow> RemoteModule option" where
  "factorize_loop [] request = None"
| "factorize_loop ((key, config) # rest) request =
     (if request_matches key request then Some (new_RemoteModule request key config)
      else factorize_loop rest request)"

text \<open>Lines 539-563: the \<^verbatim>\<open>factorize\<close> hook; \<open>None\<close> is \<^verbatim>\<open>undefined\<close> (the normal
  module factory goes on).\<close>

definition factorize :: "(string \<times> RemoteConfig) list \<Rightarrow> string \<Rightarrow> RemoteModule option" where
  "factorize remotes request =
     (if CHR ''!'' \<in> set request then None else factorize_loop remotes request)"

section \<open>ContainerEntryModule: the exposed blocks\<close>

text \<open>
  \<^verbatim>\<open>src/unnamed/part_000\<close>, class \<^verbatim>\<open>ContainerEntryModule\<close> (lines 40-295).
  \<^verbatim>\<open>build\<close> (lines 117-147) makes one block per exposed entry, with one dependency per
  import request, in order.
\<close>

record ExposeOptions =
  expose_import :: "string list"
  expose_name :: "string option"

record ContainerExposedDependency =
  exposedName :: string
  userRequest :: string
  loc_index :: nat

record AsyncDependenciesBlock =
  block_chunkName :: "string option"
  block_loc_name :: string
  block_request :: "string option"
  dependencies :: "ContainerExposedDependency list"

definition new_block :: "string \<times> ExposeOptions \<Rightarrow> AsyncDependenciesBlock" where
  "new_block entry =
     (case entry of (name, options) \<Rightarrow>
        \<lparr> block_chunkName = expose_name options,
          block_loc_name = name,
          block_request =
            (if expose_import options = [] then None else Some (last (expose_import options))),
          dependencies =
            map (\<lambda>(idx, request).
                   \<lparr> exposedName = name, userRequest = request, loc_index = idx \<rparr>)
                (enumerate 0 (expose_import options)) \<rparr>)"

definition build :: "(string \<times> ExposeOptions) list \<Rightarrow> AsyncDependenciesBlock list" where
  "build exposes = map new_block exposes"

section \<open>ContainerEntryModule: the emitted loaders\<close>

text \<open>
  \<^verbatim>\<open>codeGeneration\<close>, lines 170-217.  The text of one loader is either the block of
  \<^verbatim>\<open>runtimeTemplate.throwMissingModuleErrorBlock\<close> or
  \<^verbatim>\<open>return <blockPromise>.then(() => (() => ((<moduleRaw 1>, ..., <moduleRaw n>))));\<close>
  The two shapes are the constructors of \<open>loader_code\<close>; the second keeps the block and
  the modules, in order, of the parenthesised comma expression.
\<close>

datatype ('b, 'm) loader_code =
    ThrowMissingModuleErrorBlock string
  | ReturnBlockPromiseThen 'b "('m \<times> string) list"

text \<open>\<^verbatim>\<open>xs.join(", ")\<close>.\<close>

fun join_comma :: "string list \<Rightarrow> string" where
  "join_comma [] = []"
| "join_comma [x] = x"
| "join_comma (x # y # ys) = x @ '', '' @ join_comma (y # ys)"

text \<open>
  Lines 171-216 for one block.  \<open>getModule\<close> is \<^verbatim>\<open>moduleGraph.getModule\<close> (\<open>None\<close> when
  the dependency did not resolve).  In the second branch every module is present, so
  \<open>List.map_filter\<close> keeps the whole list.  \<^verbatim>\<open>modules[0].name\<close> of a block without
  dependencies is a property read on \<^verbatim>\<open>undefined\<close>.
\<close>

definition getter ::
  "(ContainerExposedDependency \<Rightarrow> 'm option) \<Rightarrow> AsyncDependenciesBlock
     \<Rightarrow> js_error + (string \<times> (AsyncDependenciesBlock, 'm) loader_code)" where
  "getter getModule block =
     (let modules = map (\<lambda>dep. (exposedName dep, getModule dep, userRequest dep))
                        (dependencies block);
          str = (if list_ex (\<lambda>(name, module, request). module = None) modules
                 then ThrowMissingModuleErrorBlock
                        (join_comma (map (\<lambda>(name, module, request). request) modules))
                 else ReturnBlockPromiseThen block
                        (List.map_filter
                           (\<lambda>(name, module, request). map_option (\<lambda>m. (m, request)) module)
                           modules))
      in case modules of
           [] \<Rightarrow> Inl (TypeError ''Cannot read properties of undefined (reading 'name')'')
         | (name, module, request) # _ \<Rightarrow> Inr (name, str))"

text \<open>Lines 170-217 and 221-223: the loop over the blocks and the object literal
  \<^verbatim>\<open>var moduleMap = {...}\<close>, where a later property of the same name wins.\<close>

fun getters ::
  "(ContainerExposedDependency \<Rightarrow> 'm option) \<Rightarrow> AsyncDependenciesBlock list
     \<Rightarrow> js_error + (string \<times> (AsyncDependenciesBlock, 'm) loader_code) list" where
  "getters getModule [] = Inr []"
| "getters getModule (block # blocks) =
     (case getter getModule block of
        Inl e \<Rightarrow> Inl e
      | Inr g \<Rightarrow> (case getters getModule blocks of
                   Inl e \<Rightarrow> Inl e
                 | Inr gs \<Rightarrow> Inr (g # gs)))"

definition emitted_moduleMap ::
  "(string \<times> (AsyncDependenciesBlock, 'm) loader_code) list
     \<Rightarrow> (string \<rightharpoonup> (AsyncDependenciesBlock, 'm) loader_code)" where
  "emitted_moduleMap gs = map_of (rev gs)"

text \<open>
  What a loader does when called.  \<open>load_block\<close> is the promise of
  \<^verbatim>\<open>runtimeTemplate.blockPromise\<close> (\<open>Some e\<close>: it rejects with \<open>e\<close>),
  \<open>missingModuleError\<close> the exception that the block of
  \<^verbatim>\<open>throwMissingModuleErrorBlock\<close> throws, \<open>'w\<close> the state of the running program.
  The promise of the second shape fulfils with the accessor
  \<^verbatim>\<open>() => ((<moduleRaw 1>, ..., <moduleRaw n>))\<close>, kept as its list of modules.
\<close>

definition run_loader ::
  "('b \<Rightarrow> 'w \<Rightarrow> js_error option \<times> 'w) \<Rightarrow> (string \<Rightarrow> js_error) \<Rightarrow> ('b, 'm) loader_code \<Rightarrow> 'w
     \<Rightarrow> (js_error + ('m \<times> string) list promise) \<times> 'w" where
  "run_loader load_block missingModuleError code w =
     (case code of
        ThrowMissingModuleErrorBlock request \<Rightarrow> (Inl (missingModuleError request), w)
      | ReturnBlockPromiseThen block modules \<Rightarrow>
          (case load_block block w of
             (Some e, w') \<Rightarrow> (Inr (Rejected e), w')
           | (None, w') \<Rightarrow> (Inr (Fulfilled modules), w')))"

text \<open>
  A JavaScript value that an accessor can yield: the exports object of a module, or an
  array of values.
\<close>

datatype 'e js_value = Exports 'e | ArrayValue "'e js_value list"

text \<open>
  The parenthesised expression \<^verbatim>\<open>(<moduleRaw 1>, ..., <moduleRaw n>)\<close> of lines 196-206:
  the operands are joined with \<^verbatim>\<open>", "\<close> inside one pair of parentheses, which is
  JavaScript's comma operator.  It evaluates the operands from left to right and its value
  is the value of the last one.  \<open>require\<close> is the evaluation of one
  \<^verbatim>\<open>runtimeTemplate.moduleRaw\<close> expression; \<open>acc\<close> is the value of the operand before.
\<close>

fun comma_expression ::
  "('m \<Rightarrow> 'w \<Rightarrow> (js_error + 'e) \<times> 'w) \<Rightarrow> ('m \<times> string) list \<Rightarrow> 'e js_value option \<Rightarrow> 'w
     \<Rightarrow> (js_error + 'e js_value option) \<times> 'w" where
  "comma_expression require [] acc w = (Inr acc, w)"
| "comma_expression require ((m, request) # ms) acc w =
     (case require m w of
        (Inl e, w') \<Rightarrow> (Inl e, w')
      | (Inr v, w') \<Rightarrow> comma_expression require ms (Some (Exports v)) w')"

definition invoke_accessor ::
  "('m \<Rightarrow> 'w \<Rightarrow> (js_error + 'e) \<times> 'w) \<Rightarrow> ('m \<times> string) list \<Rightarrow> 'w
     \<Rightarrow> (js_error + 'e js_value option) \<times> 'w" where
  "invoke_accessor require modules w = comma_expression require modules None w"

section \<open>ContainerEntryModule: the emitted \<^verbatim>\<open>get\<close> and \<^verbatim>\<open>init\<close>\<close>

text \<open>
  Lines 224-241.  The state that \<^verbatim>\<open>get\<close> reads and writes: the variable
  \<^verbatim>\<open>moduleMap\<close> and the global \<^verbatim>\<open>RuntimeGlobals.currentRemoteGetScope\<close> (\<open>None\<close> is
  \<^verbatim>\<open>undefined\<close>).  \<open>invoke\<close> is the call \<^verbatim>\<open>moduleMap[module]()\<close> of a loader \<open>'l\<close>.
  When the loader throws, the exception leaves \<^verbatim>\<open>get\<close> before the marker is reset.
\<close>

record ('l, 'g) container_state =
  moduleMap :: "string \<rightharpoonup> 'l"
  currentRemoteGetScope :: "'g option"

definition get ::
  "('l \<Rightarrow> ('l, 'g) container_state \<Rightarrow> (js_error + 'v promise) \<times> ('l, 'g) container_state)
     \<Rightarrow> string \<Rightarrow> 'g \<Rightarrow> ('l, 'g) container_state
     \<Rightarrow> (js_error + 'v promise) \<times> ('l, 'g) container_state" where
  "get invoke module getScope s =
     (let s1 = s\<lparr> currentRemoteGetScope := Some getScope \<rparr> in
      case moduleMap s1 module of
        Some loader \<Rightarrow>
          (case invoke loader s1 of
             (Inl e, s2) \<Rightarrow> (Inl e, s2)
           | (Inr p, s2) \<Rightarrow> (Inr p, s2\<lparr> currentRemoteGetScope := None \<rparr>))
      | None \<Rightarrow>
          (Inr (Rejected (Error (''Module '' @ [CHR 0x22] @ module @ [CHR 0x22]
                                   @ '' does not exist in container.''))),
           s1\<lparr> currentRemoteGetScope := None \<rparr>))"

text \<open>
  Lines 242-249.  A value that a slot of the share-scope registry
  \<^verbatim>\<open>RuntimeGlobals.shareScopeMap\<close> can hold; an object is its reference, so that
  \<^verbatim>\<open>!==\<close> on two objects compares identities.  A slot that was never written reads
  \<^verbatim>\<open>undefined\<close>.  The registry itself may be missing (\<open>None\<close>).
\<close>

datatype js_ref = JUndefined | JNull | JBool bool | JNum int | JStr string | JObj nat

fun truthy :: "js_ref \<Rightarrow> bool" where
  "truthy JUndefined = False"
| "truthy JNull = False"
| "truthy (JBool b) = b"
| "truthy (JNum n) = (n \<noteq> 0)"
| "truthy (JStr s) = (s \<noteq> [])"
| "truthy (JObj r) = True"

type_synonym share_scope_map = "string \<Rightarrow> js_ref"

text \<open>
  \<open>initializeSharing\<close> is \<^verbatim>\<open>RuntimeGlobals.initializeSharing\<close>, called last with the
  registry as \<^verbatim>\<open>init\<close> left it; \<open>name\<close> is \<^verbatim>\<open>this._shareScope\<close> and
  \<open>shareScope'\<close> the argument \<^verbatim>\<open>shareScope\<close>.  The result
  \<open>Inr None\<close> is the \<^verbatim>\<open>return;\<close> of the first line.
\<close>

definition init ::
  "(string \<Rightarrow> 'i \<Rightarrow> share_scope_map \<Rightarrow> (js_error + 'v) \<times> share_scope_map)
     \<Rightarrow> string \<Rightarrow> js_ref \<Rightarrow> 'i \<Rightarrow> share_scope_map option
     \<Rightarrow> (js_error + 'v option) \<times> share_scope_map option" where
  "init initializeSharing name shareScope' initScope S =
     (case S of
        None \<Rightarrow> (Inr None, None)
      | Some m \<Rightarrow>
          (let oldScope = m name in
           if truthy oldScope \<and> oldScope \<noteq> shareScope'
           then (Inl (Error ''Container initialization failed as it has already been initialized with a different share scope''),
                 Some m)
           else (case initializeSharing name initScope (m(name := shareScope')) of
                   (Inl e, m') \<Rightarrow> (Inl e, Some m')
                 | (Inr v, m') \<Rightarrow> (Inr (Some v), Some m'))))"

section \<open>ConsumeSharedPlugin: creating a ConsumeSharedModule\<close>

text \<open>
  \<^verbatim>\<open>src/lib/sharing/ConsumeSharedPlugin.js\<close>, \<^verbatim>\<open>apply\<close> (lines 111-333).  The part of
  the compilation that \<^verbatim>\<open>createConsumeSharedModule\<close> writes: the warnings, the errors
  and the three dependency sets.
\<close>

record WebpackError =
  message :: string
  error_file :: "string option"

text \<open>\<^verbatim>\<open>new ModuleNotFoundError(null, err, { name })\<close>, lines 187-189.\<close>

record ModuleNotFoundError =
  mnf_err :: string
  mnf_loc_name :: string

record compilation =
  warnings :: "WebpackError list"
  errors :: "ModuleNotFoundError list"
  contextDependencies :: "string set"
  fileDependencies :: "string set"
  missingDependencies :: "string set"

text \<open>
  What the callback of \<^verbatim>\<open>resolver.resolve\<close> receives (lines 175-194): an error or a
  result (a path, or \<^verbatim>\<open>false\<close>), and the dependencies collected in
  \<^verbatim>\<open>resolveContext\<close>.
\<close>

datatype import_resolved = IR_undefined | IR_false | IR_path string

fun truthy_resolved :: "import_resolved \<Rightarrow> bool" where
  "truthy_resolved IR_undefined = False"
| "truthy_resolved IR_false = False"
| "truthy_resolved (IR_path p) = (p \<noteq> [])"

record resolve_outcome =
  res_err :: "string option"
  res_result :: import_resolved
  res_contextDependencies :: "string set"
  res_fileDependencies :: "string set"
  res_missingDependencies :: "string set"

text \<open>
  What the callback \<^verbatim>\<open>(err, result) => ...\<close> of \<^verbatim>\<open>getDescriptionFile\<close> receives
  (lines 222-230): an error (\<^verbatim>\<open>${err}\<close> is its text); or a result object with the
  parsed file (\<open>None\<close> when \<^verbatim>\<open>data\<close> is falsy) and its path; or neither an error nor
  a result (\<open>DescriptionNoResult\<close>, the call \<^verbatim>\<open>callback()\<close> that reports that no
  description file exists up to the root directory).
\<close>

datatype 'd description_file =
    DescriptionError string
  | DescriptionFile "'d option" string
  | DescriptionNoResult

text \<open>
  The collaborators outside the given sources, as parameters: \<^verbatim>\<open>resolver.resolve\<close>
  (by context and request), \<^verbatim>\<open>getDescriptionFile\<close> on the input file system for
  \<^verbatim>\<open>["package.json"]\<close> (by directory), \<^verbatim>\<open>getRequiredVersionFromDescriptionFile\<close>
  (\<open>None\<close> when the result is not a string), \<^verbatim>\<open>parseRange\<close> and
  \<^verbatim>\<open>compiler.context\<close>.
\<close>

record ('d, 'r) collaborators =
  env_resolve :: "string \<Rightarrow> string \<Rightarrow> resolve_outcome"
  env_getDescriptionFile :: "string \<Rightarrow> 'd description_file"
  env_getRequiredVersionFromDescriptionFile :: "'d \<Rightarrow> string \<Rightarrow> string option"
  env_parseRange :: "string \<Rightarrow> 'r"
  env_compiler_context :: string

record 'r ConsumeSharedModule =
  csm_context :: string
  csm_options :: "'r ConsumeOptions"
  csm_importResolved :: import_resolved

definition backslash :: char where
  "backslash = CHR 0x5C"

definition is_letter :: "char \<Rightarrow> bool" where
  "is_letter c = (c \<in> set ''ABCDEFGHIJKLMNOPQRSTUVWXYZabcdefghijklmnopqrstuvwxyz'')"

text \<open>Line 203: \<^verbatim>\<open>/^(\/|[A-Za-z]:|\\\\)/.test(request)\<close>, that is, the request starts
  with a slash, with a letter and a colon, or with two backslashes.\<close>

definition is_absolute_request :: "string \<Rightarrow> bool" where
  "is_absolute_request request =
     (case request of
        [] \<Rightarrow> False
      | c # rest \<Rightarrow>
          c = CHR ''/''
          \<or> (is_letter c \<and> (case rest of [] \<Rightarrow> False | d # _ \<Rightarrow> d = CHR '':''))
          \<or> (c = backslash \<and> (case rest of [] \<Rightarrow> False | d # _ \<Rightarrow> d = backslash)))"

text \<open>\<^verbatim>\<open>\.\.?(\/|$)\<close> at the start: one or two dots, then a slash or the end.\<close>

definition is_relative_request :: "string \<Rightarrow> bool" where
  "is_relative_request request =
     (case request of
        [] \<Rightarrow> False
      | c # rest \<Rightarrow>
          c = CHR ''.''
          \<and> (case rest of
                [] \<Rightarrow> True
              | d # rest' \<Rightarrow>
                  d = CHR ''/''
                  \<or> (d = CHR ''.'' \<and> (case rest' of [] \<Rightarrow> True | e # _ \<Rightarrow> e = CHR ''/''))))"

text \<open>Lines 155-157: \<^verbatim>\<open>config.import && /^(\.\.?(\/|$)|\/|[A-Za-z]:|\\\\)/.test(config.import)\<close>.\<close>

definition directFallback :: "'r ConsumeOptions \<Rightarrow> bool" where
  "directFallback config =
     (case import config of
        None \<Rightarrow> False
      | Some i \<Rightarrow> i \<noteq> [] \<and> (is_relative_request i \<or> is_absolute_request i))"

text \<open>
  Line 208: \<^verbatim>\<open>/^((?:@[^\\/]+[\\/])?[^\\/]+)/.exec(request)\<close>; the result is
  \<^verbatim>\<open>match[0]\<close>, or \<open>None\<close> when there is no match.  A separator is a slash or a
  backslash.  The optional group takes \<^verbatim>\<open>@\<close>, a non-empty run without separator and
  one separator, and is kept only when a non-empty run without separator follows it;
  otherwise the match is the first run without separator, which must not be empty.
\<close>

definition is_separator :: "char \<Rightarrow> bool" where
  "is_separator c = (c = CHR ''/'' \<or> c = backslash)"

definition extract_package_name :: "string \<Rightarrow> string option" where
  "extract_package_name request =
     (let segment = takeWhile (\<lambda>c. \<not> is_separator c) request in
      case request of
        [] \<Rightarrow> None
      | c # rest \<Rightarrow>
          if c = CHR ''@'' then
            (let scope = takeWhile (\<lambda>c. \<not> is_separator c) rest in
             case dropWhile (\<lambda>c. \<not> is_separator c) rest of
               [] \<Rightarrow> Some segment
             | sep # rest' \<Rightarrow>
                 (let name = takeWhile (\<lambda>c. \<not> is_separator c) rest' in
                  if scope \<noteq> [] \<and> name \<noteq> [] then Some (c # scope @ [sep] @ name)
                  else Some segment))
          else if segment = [] then None
          else Some segment)"

text \<open>Lines 148-154.\<close>

definition requiredVersionWarning :: "string \<Rightarrow> string \<Rightarrow> compilation \<Rightarrow> compilation" where
  "requiredVersionWarning request details c =
     c\<lparr> warnings := warnings c @
          [\<lparr> message = ''No required version specified and unable to automatically determine one. ''
                        @ details,
             error_file = Some (''shared module '' @ request) \<rparr>] \<rparr>"

text \<open>Lines 159-196: the first promise, which resolves the fallback import.  Here and
  below \<open>ctx\<close> is the parameter \<^verbatim>\<open>context\<close> (the issuer's directory) and \<open>c\<close> the
  compilation.\<close>

definition resolve_fallback ::
  "('d, 'r) collaborators \<Rightarrow> string \<Rightarrow> string \<Rightarrow> 'r ConsumeOptions \<Rightarrow> compilation
     \<Rightarrow> import_resolved \<times> compilation" where
  "resolve_fallback env ctx request config c =
     (case import config of
        None \<Rightarrow> (IR_undefined, c)
      | Some i \<Rightarrow>
          if i = [] then (IR_undefined, c)
          else
            (let out = env_resolve env
                         (if directFallback config then env_compiler_context env else ctx) i;
                 c1 = c\<lparr> contextDependencies :=
                           contextDependencies c \<union> res_contextDependencies out,
                         fileDependencies := fileDependencies c \<union> res_fileDependencies out,
                         missingDependencies :=
                           missingDependencies c \<union> res_missingDependencies out \<rparr>
             in case res_err out of
                  Some err \<Rightarrow>
                    (IR_undefined,
                     c1\<lparr> errors := errors c1 @
                           [\<lparr> mnf_err = err,
                              mnf_loc_name = ''resolving fallback for shared module '' @ request \<rparr>] \<rparr>)
                | None \<Rightarrow> (res_result out, c1)))"

text \<open>Lines 201-216: the package name to look up, or the early \<^verbatim>\<open>return resolve()\<close>
  (\<open>Inl\<close>, with the compilation as the early return leaves it).\<close>

definition choose_packageName ::
  "string \<Rightarrow> 'r ConsumeOptions \<Rightarrow> compilation \<Rightarrow> compilation + string" where
  "choose_packageName request config c =
     (case packageName config of
        Some p \<Rightarrow> Inr p
      | None \<Rightarrow>
          if is_absolute_request request then Inl c
          else (case extract_package_name request of
                  None \<Rightarrow>
                    Inl (requiredVersionWarning request
                           ''Unable to extract the package name from request.'' c)
                | Some p \<Rightarrow> Inr p))"

text \<open>
  Lines 198-249: the second promise, which determines the required version.  Line 229,
  \<^verbatim>\<open>const { data, path: descriptionPath } = result;\<close>, comes before the test of
  \<^verbatim>\<open>data\<close> and has no guard: when the callback received no result it throws a
  TypeError (the wording of the message is the engine's).  The exception leaves the
  callback, \<^verbatim>\<open>resolve\<close> is never called, and the promise never settles: \<open>Inl\<close>.
\<close>

definition determine_requiredVersion ::
  "('d, 'r) collaborators \<Rightarrow> string \<Rightarrow> string \<Rightarrow> 'r ConsumeOptions \<Rightarrow> compilation
     \<Rightarrow> (js_error + 'r required_version) \<times> compilation" where
  "determine_requiredVersion env ctx request config c =
     (if requiredVersion config \<noteq> RV_undefined then (Inr (requiredVersion config), c)
      else
        (case choose_packageName request config c of
           Inl c' \<Rightarrow> (Inr RV_undefined, c')
         | Inr p \<Rightarrow>
             (case env_getDescriptionFile env ctx of
                DescriptionError err \<Rightarrow>
                  (Inr RV_undefined,
                   requiredVersionWarning request (''Unable to read description file: '' @ err) c)
              | DescriptionNoResult \<Rightarrow>
                  (Inl (TypeError
                     ''Cannot destructure property 'data' of 'result' as it is undefined.''),
                   c)
              | DescriptionFile None descriptionPath \<Rightarrow>
                  (Inr RV_undefined,
                   requiredVersionWarning request
                     (''Unable to find description file in '' @ ctx @ ''.'') c)
              | DescriptionFile (Some data) descriptionPath \<Rightarrow>
                  (case env_getRequiredVersionFromDescriptionFile env data p of
                     None \<Rightarrow>
                       (Inr RV_undefined,
                        requiredVersionWarning request
                          (''Unable to find required version for '' @ [CHR 0x22] @ p @ [CHR 0x22]
                           @ '' in description file ('' @ descriptionPath
                           @ ''). It need to be in dependencies, devDependencies or peerDependencies.'')
                          c)
                   | Some v \<Rightarrow> (Inr (RV_range (env_parseRange env v)), c)))))"

text \<open>
  Lines 147-262: both promises, then the module (lines 250-261).  When the second promise
  never settles, neither does \<^verbatim>\<open>Promise.all\<close>, and no ConsumeSharedModule is
  constructed: the result is the exception (\<open>Inl\<close>).
\<close>

definition createConsumeSharedModule ::
  "('d, 'r) collaborators \<Rightarrow> string \<Rightarrow> string \<Rightarrow> 'r ConsumeOptions \<Rightarrow> compilation
     \<Rightarrow> (js_error + 'r ConsumeSharedModule) \<times> compilation" where
  "createConsumeSharedModule env ctx request config c =
     (case resolve_fallback env ctx request config c of
        (importResolved, c1) \<Rightarrow>
          (case determine_requiredVersion env ctx request config c1 of
             (Inl e, c2) \<Rightarrow> (Inl e, c2)
           | (Inr version, c2) \<Rightarrow>
               (Inr \<lparr> csm_context =
                        (if directFallback config then env_compiler_context env else ctx),
                      csm_options =
                        config\<lparr> import := (if truthy_resolved importResolved
                                              then import config else None),
                                requiredVersion := version \<rparr>,
                      csm_importResolved = importResolved \<rparr>,
                c2)))"

section \<open>ConsumeSharedPlugin: the hooks\<close>

text \<open>The class of \<^verbatim>\<open>dependencies[0]\<close>, as far as lines 270-275 and 299-304 test it.\<close>

datatype dependency_class =
  ConsumeSharedFallbackDependency | ProvideForSharedDependency | OtherDependency

text \<open>
  A hook returns the promise of \<^verbatim>\<open>createConsumeSharedModule\<close>, or \<^verbatim>\<open>undefined\<close>
  (\<open>Inr None\<close>) when it does not apply; \<open>Inl\<close> is the promise that never settles.
\<close>

definition created ::
  "(js_error + 'm) \<times> compilation \<Rightarrow> (js_error + 'm option) \<times> compilation" where
  "created r = (case r of (Inl e, c) \<Rightarrow> (Inl e, c) | (Inr m, c) \<Rightarrow> (Inr (Some m), c))"

text \<open>Lines 282-293: \<^verbatim>\<open>prefixedConsumes\<close> is a Map, iterated in insertion order; the loop
  returns at the first prefix that the request starts with.\<close>

fun prefixed_loop ::
  "('d, 'r) collaborators \<Rightarrow> (string \<times> 'r ConsumeOptions) list \<Rightarrow> string \<Rightarrow> string \<Rightarrow> compilation
     \<Rightarrow> (js_error + 'r ConsumeSharedModule option) \<times> compilation" where
  "prefixed_loop env [] ctx request c = (Inr None, c)"
| "prefixed_loop env ((pfx, options) # rest) ctx request c =
     (if prefix pfx request then
        (let remainder = drop (length pfx) request in
         created (createConsumeSharedModule env ctx request
                (options\<lparr> import := (case import options of
                                       None \<Rightarrow> None
                                     | Some i \<Rightarrow> if i = [] then None else Some (i @ remainder)),
                          shareKey := shareKey options @ remainder \<rparr>) c))
      else prefixed_loop env rest ctx request c)"

text \<open>Lines 265-295: the \<^verbatim>\<open>factorize\<close> hook, once the configurations are resolved.\<close>

definition consume_factorize ::
  "('d, 'r) collaborators \<Rightarrow> (string \<rightharpoonup> 'r ConsumeOptions) \<Rightarrow> (string \<times> 'r ConsumeOptions) list
     \<Rightarrow> string \<Rightarrow> string \<Rightarrow> dependency_class \<Rightarrow> compilation
     \<Rightarrow> (js_error + 'r ConsumeSharedModule option) \<times> compilation" where
  "consume_factorize env unresolvedConsumes prefixedConsumes ctx request dependency c =
     (if dependency = ConsumeSharedFallbackDependency \<or> dependency = ProvideForSharedDependency
      then (Inr None, c)
      else
        (case unresolvedConsumes request of
           Some match \<Rightarrow> created (createConsumeSharedModule env ctx request match c)
         | None \<Rightarrow> prefixed_loop env prefixedConsumes ctx request c))"

text \<open>Lines 296-313: the \<^verbatim>\<open>createModule\<close> hook.\<close>

definition consume_createModule ::
  "('d, 'r) collaborators \<Rightarrow> (string \<rightharpoonup> 'r ConsumeOptions) \<Rightarrow> string \<Rightarrow> string
     \<Rightarrow> dependency_class \<Rightarrow> compilation
     \<Rightarrow> (js_error + 'r ConsumeSharedModule option) \<times> compilation" where
  "consume_createModule env resolvedConsumes ctx resource dependency c =
     (if dependency = ConsumeSharedFallbackDependency \<or> dependency = ProvideForSharedDependency
      then (Inr None, c)
      else
        (case resolvedConsumes resource of
           Some options \<Rightarrow> created (createConsumeSharedModule env ctx resource options c)
         | None \<Rightarrow> (Inr None, c)))"

section \<open>ConsumeSharedPlugin: the configurations handed to the hooks\<close>

text \<open>
  Modelled from the spec: \<^verbatim>\<open>resolveMatchedConfigs\<close> (required on line 19 and called on
  line 125 of \<^verbatim>\<open>ConsumeSharedPlugin.js\<close>) is not among the given sources.  Section 4.3
  of the specification names the three tiers that it prepares for the hooks: configured
  keys matched exactly (\<open>unresolved\<close>), configured prefix keys (\<open>prefixed\<close>), and on-disk
  paths explicitly configured as shared (\<open>resolved\<close>).  Each configured key goes to one
  tier, tested in this order: a relative request (\<^verbatim>\<open>/^\.\.?(\/|$)/\<close>) is resolved from
  \<^verbatim>\<open>compiler.context\<close> and stored in \<open>resolved\<close> under the resolved path, or reported as an
  error when it does not resolve; an absolute path (\<^verbatim>\<open>/^(\/|[A-Za-z]:\\|\\\\)/\<close>) is
  stored in \<open>resolved\<close> as it is; a key that ends with a slash is a prefix; any other key
  is an exact key.  The three tiers are Maps: setting a key again replaces its value and
  keeps its place.
\<close>

record 'r matched_configs =
  resolved :: "string \<rightharpoonup> 'r ConsumeOptions"
  unresolved :: "string \<rightharpoonup> 'r ConsumeOptions"
  prefixed :: "(string \<times> 'r ConsumeOptions) list"

definition is_absolute_path :: "string \<Rightarrow> bool" where
  "is_absolute_path request =
     (case request of
        [] \<Rightarrow> False
      | c # rest \<Rightarrow>
          c = CHR ''/''
          \<or> (is_letter c
              \<and> (case rest of
                    d # e # _ \<Rightarrow> d = CHR '':'' \<and> e = backslash
                  | _ \<Rightarrow> False))
          \<or> (c = backslash \<and> (case rest of [] \<Rightarrow> False | d # _ \<Rightarrow> d = backslash)))"

fun map_set :: "'k \<Rightarrow> 'v \<Rightarrow> ('k \<times> 'v) list \<Rightarrow> ('k \<times> 'v) list" where
  "map_set k v [] = [(k, v)]"
| "map_set k v ((k', v') # rest) =
     (if k' = k then (k, v) # rest else (k', v') # map_set k v rest)"

definition match_config ::
  "('d, 'r) collaborators \<Rightarrow> string \<times> 'r ConsumeOptions \<Rightarrow> 'r matched_configs \<times> compilation
     \<Rightarrow> 'r matched_configs \<times> compilation" where
  "match_config env entry state =
     (case entry of (request, config) \<Rightarrow>
      case state of (M, c) \<Rightarrow>
        if is_relative_request request then
          (let out = env_resolve env (env_compiler_context env) request;
               c1 = c\<lparr> contextDependencies :=
                         contextDependencies c \<union> res_contextDependencies out,
                       fileDependencies := fileDependencies c \<union> res_fileDependencies out,
                       missingDependencies :=
                         missingDependencies c \<union> res_missingDependencies out \<rparr>
           in case res_err out of
                Some err \<Rightarrow>
                  (M, c1\<lparr> errors := errors c1 @
                        [\<lparr> mnf_err = err, mnf_loc_name = ''shared module '' @ request \<rparr>] \<rparr>)
              | None \<Rightarrow>
                  (case res_result out of
                     IR_path p \<Rightarrow> (M\<lparr> resolved := (resolved M)(p \<mapsto> config) \<rparr>, c1)
                   | IR_false \<Rightarrow>
                       (M, c1\<lparr> errors := errors c1 @
                             [\<lparr> mnf_err = ''Can't resolve '' @ request,
                                mnf_loc_name = ''shared module '' @ request \<rparr>] \<rparr>)
                   | IR_undefined \<Rightarrow> (M, c1)))
        else if is_absolute_path request then
          (M\<lparr> resolved := (resolved M)(request \<mapsto> config) \<rparr>, c)
        else if request \<noteq> [] \<and> last request = CHR ''/'' then
          (M\<lparr> prefixed := map_set request config (prefixed M) \<rparr>, c)
        else (M\<lparr> unresolved := (unresolved M)(request \<mapsto> config) \<rparr>, c))"

definition resolveMatchedConfigs ::
  "('d, 'r) collaborators \<Rightarrow> (string \<times> 'r ConsumeOptions) list \<Rightarrow> compilation
     \<Rightarrow> 'r matched_configs \<times> compilation" where
  "resolveMatchedConfigs env configs c =
     foldl (\<lambda>state entry. match_config env entry state)
       (\<lparr> resolved = Map.empty, unresolved = Map.empty, prefixed = [] \<rparr>, c) configs"

section \<open>Outcomes of the version determination, as the compilation shows them\<close>

text \<open>
  \<open>only_warning env ctx request config c details\<close>: the call of
  \<^verbatim>\<open>createConsumeSharedModule\<close> on the compilation \<open>c\<close> creates a module and appends
  exactly one warning, with the given details, to \<^verbatim>\<open>compilation.warnings\<close>;
  \<^verbatim>\<open>compilation.errors\<close> is what the resolution of the fallback import alone leaves; and
  the module's \<^verbatim>\<open>requiredVersion\<close> is \<^verbatim>\<open>undefined\<close>.
\<close>

definition only_warning ::
  "('d, 'r) collaborators \<Rightarrow> string \<Rightarrow> string \<Rightarrow> 'r ConsumeOptions \<Rightarrow> compilation \<Rightarrow> string \<Rightarrow> bool"
  where
  "only_warning env ctx request config c details =
     (case createConsumeSharedModule env ctx request config c of
        (Inl e, c') \<Rightarrow> False
      | (Inr m, c') \<Rightarrow>
          warnings c' = warnings c @
            [\<lparr> message = ''No required version specified and unable to automatically determine one. ''
                          @ details,
               error_file = Some (''shared module '' @ request) \<rparr>]
          \<and> errors c' = errors (snd (resolve_fallback env ctx request config c))
          \<and> requiredVersion (csm_options m) = RV_undefined)"

text \<open>
  \<open>without_inference result c\<close>: the hook, called on the compilation \<open>c\<close>, created a module
  whose \<^verbatim>\<open>requiredVersion\<close> is \<^verbatim>\<open>undefined\<close> and added no warning.
\<close>

definition without_inference ::
  "(js_error + 'r ConsumeSharedModule option) \<times> compilation \<Rightarrow> compilation \<Rightarrow> bool" where
  "without_inference result c =
     (case result of
        (Inr (Some m), c') \<Rightarrow>
          requiredVersion (csm_options m) = RV_undefined \<and> warnings c' = warnings c
      | _ \<Rightarrow> False)"

text \<open>
  \<open>well_routed M\<close>: every key of \<open>resolved\<close> is an absolute request in the sense of line
  203; no key of \<open>unresolved\<close> is a relative request; every prefix ends with a slash and
  is not a relative request.
\<close>

definition well_routed :: "'r matched_configs \<Rightarrow> bool" where
  "well_routed M =
     ((\<forall>k \<in> dom (resolved M). is_absolute_request k)
      \<and> (\<forall>k \<in> dom (unresolved M). \<not> is_relative_request k)
      \<and> (\<forall>(p, options) \<in> set (prefixed M).
            \<not> is_relative_request p \<and> p \<noteq> [] \<and> last p = CHR ''/''))"

section \<open>Sample collaborators for concrete evaluations\<close>

definition sample_isRequiredVersion :: "string \<Rightarrow> bool" where
  "sample_isRequiredVersion s = (s \<noteq> [] \<and> hd s = CHR ''^'')"

definition sample_parseRange :: "string \<Rightarrow> string" where
  "sample_parseRange s = s"

definition sample_longhand :: ConsumesConfig where
  "sample_longhand =
     \<lparr> item_import = Import_missing, item_shareScope = None, item_shareKey = None,
       item_requiredVersion = Version_missing, item_strictVersion = None,
       item_packageName = None, item_singleton = Some True, item_eager = None \<rparr>"

definition sample_remotes_overlap :: "(string \<times> RemoteConfig) list" where
  "sample_remotes_overlap =
     [(''app'', \<lparr> external = [''app@http://a/remoteEntry.js''], remote_shareScope = ''default'' \<rparr>),
      (''app/sub'', \<lparr> external = [''sub@http://b/remoteEntry.js''], remote_shareScope = ''other'' \<rparr>)]"

definition sample_remotes_fallback :: "(string \<times> RemoteConfig) list" where
  "sample_remotes_fallback =
     [(''app1'', \<lparr> external = [''app1@http://a/remoteEntry.js'', ''internal ./local''],
                  remote_shareScope = ''default'' \<rparr>)]"

definition sample_remotes_internal_first :: "(string \<times> RemoteConfig) list" where
  "sample_remotes_internal_first =
     [(''app1'', \<lparr> external = [''internal ./local'', ''app1@http://a/remoteEntry.js''],
                  remote_shareScope = ''default'' \<rparr>)]"

definition sample_initializeSharing ::
  "string \<Rightarrow> string list \<Rightarrow> share_scope_map \<Rightarrow> (js_error + unit) \<times> share_scope_map" where
  "sample_initializeSharing name initScope m = (Inr (), m)"

definition sample_registry :: share_scope_map where
  "sample_registry = (\<lambda>name. if name = ''default'' then JObj 1 else JUndefined)"

definition sample_invoke ::
  "nat \<Rightarrow> (nat, string) container_state \<Rightarrow> (js_error + nat promise) \<times> (nat, string) container_state" where
  "sample_invoke loader s = (Inr (Fulfilled loader), s)"

definition sample_container :: "(nat, string) container_state" where
  "sample_container = \<lparr> moduleMap = [''./shared'' \<mapsto> 7], currentRemoteGetScope = None \<rparr>"

datatype sample_module = Module_A | Module_B

definition sample_getModule :: "ContainerExposedDependency \<Rightarrow> sample_module option" where
  "sample_getModule dep =
     (if userRequest dep = ''./a'' then Some Module_A
      else if userRequest dep = ''./b'' then Some Module_B else None)"

definition sample_exports :: "sample_module \<Rightarrow> string" where
  "sample_exports m = (case m of Module_A \<Rightarrow> ''exports of a'' | Module_B \<Rightarrow> ''exports of b'')"

text \<open>The state of \<open>sample_require\<close> is the list of the modules required so far.\<close>

definition sample_require ::
  "sample_module \<Rightarrow> sample_module list \<Rightarrow> (js_error + string) \<times> sample_module list" where
  "sample_require m w = (Inr (sample_exports m), w @ [m])"

definition sample_load_block ::
  "AsyncDependenciesBlock \<Rightarrow> sample_module list \<Rightarrow> js_error option \<times> sample_module list" where
  "sample_load_block block w = (None, w)"

definition sample_missingModuleError :: "string \<Rightarrow> js_error" where
  "sample_missingModuleError request = Error (''Cannot find module '' @ request)"

definition sample_block :: AsyncDependenciesBlock where
  "sample_block = new_block (''./shared'', \<lparr> expose_import = [''./a'', ''./b''], expose_name = None \<rparr>)"

definition sample_block_missing :: AsyncDependenciesBlock where
  "sample_block_missing = new_block (''./shared'', \<lparr> expose_import = [''./a'', ''./c''], expose_name = None \<rparr>)"

text \<open>A sample description file is the list of its dependency entries.\<close>

definition sample_description :: "(string \<times> string) list" where
  "sample_description = [(''react'', ''^17.0.0'')]"

definition sample_resolve :: "string \<Rightarrow> string \<Rightarrow> resolve_outcome" where
  "sample_resolve ctx request =
     \<lparr> res_err = (if request = ''missing-lib'' then Some ''cannot resolve'' else None),
       res_result =
         (if prefix ''./'' request then IR_path (''/project/'' @ drop 2 request @ ''.js'')
          else IR_path (''/project/node_modules/'' @ request @ ''/index.js'')),
       res_contextDependencies = {}, res_fileDependencies = {},
       res_missingDependencies = {} \<rparr>"

text \<open>Below \<^verbatim>\<open>/project/src\<close> there is a \<^verbatim>\<open>package.json\<close>; \<^verbatim>\<open>/unreadable\<close> cannot be
  read; for \<^verbatim>\<open>/empty\<close> the answer is a result whose \<^verbatim>\<open>data\<close> is falsy; elsewhere there
  is no \<^verbatim>\<open>package.json\<close> up to the root, and the callback gets neither error nor result.\<close>

definition sample_getDescriptionFile :: "string \<Rightarrow> (string \<times> string) list description_file" where
  "sample_getDescriptionFile dir =
     (if dir = ''/project/src'' then DescriptionFile (Some sample_description) ''/project/package.json''
      else if dir = ''/unreadable'' then DescriptionError ''EACCES''
      else if dir = ''/empty'' then DescriptionFile None ''/empty/package.json''
      else DescriptionNoResult)"

definition sample_collaborators :: "((string \<times> string) list, string) collaborators" where
  "sample_collaborators =
     \<lparr> env_resolve = sample_resolve,
       env_getDescriptionFile = sample_getDescriptionFile,
       env_getRequiredVersionFromDescriptionFile = map_of,
       env_parseRange = sample_parseRange,
       env_compiler_context = ''/project'' \<rparr>"

definition sample_compilation :: compilation where
  "sample_compilation =
     \<lparr> warnings = [], errors = [], contextDependencies = {}, fileDependencies = {},
       missingDependencies = {} \<rparr>"

definition sample_consume :: "string \<Rightarrow> string \<Rightarrow> string ConsumeOptions" where
  "sample_consume target key =
     \<lparr> import = Some target, shareScope = ''default'', shareKey = key,
       requiredVersion = RV_undefined, strictVersion = False, packageName = None,
       singleton = False, eager = False \<rparr>"

definition sample_prefixed :: "(string \<times> string ConsumeOptions) list" where
  "sample_prefixed =
     [(''shared/'', sample_consume ''./src/shared/'' ''shared/''),
      (''shared/utils/'', sample_consume ''./src/utils/'' ''utils-lib/'')]"

definition sample_configs :: "(string \<times> string ConsumeOptions) list" where
  "sample_configs =
     [(''./src/util'', sample_consume ''./src/util'' ''util''),
      (''/project/lib/tool.js'', sample_consume ''/project/lib/tool.js'' ''tool''),
      (''shared/'', sample_consume ''./src/shared/'' ''shared/''),
      (''react'', sample_consume ''react'' ''react''),
      (''C:tool'', sample_consume ''C:tool'' ''tool2''),
      (''C:lib/'', sample_consume ''./src/lib/'' ''lib/'')]"

definition sample_matched :: "string matched_configs" where
  "sample_matched =
     fst (resolveMatchedConfigs sample_collaborators sample_configs sample_compilation)"

definition sample_no_description_file :: "string \<Rightarrow> (string \<times> string) list description_file"
  where
  "sample_no_description_file dir = DescriptionNoResult"

section \<open>Facts about the remote reference model\<close>

lemma request_matches_iff:
  "request_matches k r \<longleftrightarrow> prefix k r \<and> (length r = length k \<or> r ! length k = CHR ''/'')"
  unfolding request_matches_def
  by (auto dest: prefix_length_le simp: le_less)

lemma factorize_loop_find:
  "factorize_loop remotes r =
     map_option (\<lambda>(k, c). new_RemoteModule r k c) (find (\<lambda>(k, c). request_matches k r) remotes)"
  by (induction remotes r rule: factorize_loop.induct) auto

lemmas remote_eval_simps =
  factorize_def request_matches_def new_RemoteModule_def external_request_def
  reference_name_def remoteExternals_def enumerate_simps show_nat.simps digit_char_def

lemma external_requests_nth:
  "i < length es \<Longrightarrow>
     map (external_request key) (enumerate 0 es) ! i =
       (if prefix ''internal '' (es ! i) then drop 9 (es ! i) else reference_name key i)"
  by (simp add: external_request_def nth_enumerate_eq)

lemma register_externals_origin:
  "register_externals key es i m n = Some e \<Longrightarrow>
     m n = Some e
     \<or> (e \<in> set es \<and> \<not> prefix ''internal '' e \<and> (\<exists>j. n = reference_name key j))"
proof (induction es arbitrary: i m)
  case Nil
  then show ?case by simp
next
  case (Cons a es)
  show ?case
  proof (cases "prefix ''internal '' a")
    case True
    with Cons.prems Cons.IH [of i m] show ?thesis by auto
  next
    case False
    with Cons.prems
    have "register_externals key es (Suc i) (m(reference_name key i \<mapsto> a)) n = Some e"
      by simp
    from Cons.IH [OF this]
    have "(m(reference_name key i \<mapsto> a)) n = Some e
            \<or> (e \<in> set es \<and> \<not> prefix ''internal '' e \<and> (\<exists>j. n = reference_name key j))" .
    with False show ?thesis by (auto split: if_splits)
  qed
qed

lemma collect_remoteExternals_origin:
  "collect_remoteExternals remotes m n = Some e \<Longrightarrow>
     m n = Some e
     \<or> (\<not> prefix ''internal '' e
         \<and> (\<exists>(k, c) \<in> set remotes. e \<in> set (external c) \<and> (\<exists>j. n = reference_name k j)))"
proof (induction remotes arbitrary: m)
  case Nil
  then show ?case by simp
next
  case (Cons kc remotes)
  obtain k c where kc: "kc = (k, c)" by (cases kc)
  from Cons.prems kc
  have "collect_remoteExternals remotes (register_externals k (external c) 0 m) n = Some e"
    by simp
  from Cons.IH [OF this]
  consider "register_externals k (external c) 0 m n = Some e"
    | "\<not> prefix ''internal '' e
         \<and> (\<exists>(k, c) \<in> set remotes. e \<in> set (external c) \<and> (\<exists>j. n = reference_name k j))"
    by blast
  then show ?case
  proof cases
    case 1
    from register_externals_origin [OF 1] kc show ?thesis by auto
  next
    case 2
    then show ?thesis by auto
  qed
qed

lemma register_externals_dom_mono:
  "n \<in> dom m \<Longrightarrow> n \<in> dom (register_externals key es i m)"
  by (induction es arbitrary: i m) auto

lemma collect_remoteExternals_dom_mono:
  "n \<in> dom m \<Longrightarrow> n \<in> dom (collect_remoteExternals remotes m)"
proof (induction remotes arbitrary: m)
  case Nil
  then show ?case by simp
next
  case (Cons kc remotes)
  obtain k c where kc: "kc = (k, c)" by (cases kc)
  from Cons.prems have "n \<in> dom (register_externals k (external c) 0 m)"
    by (rule register_externals_dom_mono)
  from Cons.IH [OF this] show ?case by (simp add: kc)
qed

lemma register_externals_registers:
  "i < length es \<Longrightarrow> (\<forall>j\<le>i. \<not> prefix ''internal '' (es ! j)) \<Longrightarrow>
     reference_name key (n + i) \<in> dom (register_externals key es n m)"
proof (induction es arbitrary: i n m)
  case Nil
  then show ?case by simp
next
  case (Cons a es)
  from Cons.prems(2) have a: "\<not> prefix ''internal '' a" by force
  show ?case
  proof (cases i)
    case 0
    with a show ?thesis by (simp add: register_externals_dom_mono)
  next
    case (Suc i')
    with Cons.prems have len: "i' < length es"
      and rest: "\<forall>j\<le>i'. \<not> prefix ''internal '' (es ! j)"
      by auto
    have step: "register_externals key (a # es) n m
                  = register_externals key es (Suc n) (m(reference_name key n \<mapsto> a))"
      using a by simp
    have idx: "n + i = Suc n + i'" using Suc by simp
    show ?thesis unfolding step idx by (rule Cons.IH [OF len rest])
  qed
qed

lemma numbering_agrees_before_first_internal:
  assumes "(key, config) \<in> set remotes" and "i < length (external config)"
    and "\<forall>j\<le>i. \<not> prefix ''internal '' (external config ! j)"
  shows "externalRequests (new_RemoteModule request key config) ! i
           \<in> dom (remoteExternals remotes)"
proof -
  have reg: "reference_name key i \<in> dom (collect_remoteExternals remotes m)" for m
    using assms(1)
  proof (induction remotes arbitrary: m)
    case Nil
    then show ?case by simp
  next
    case (Cons kc remotes)
    obtain k c where kc: "kc = (k, c)" by (cases kc)
    show ?case
    proof (cases "kc = (key, config)")
      case True
      with register_externals_registers [OF assms(2,3), of key 0 m]
      show ?thesis by (simp add: collect_remoteExternals_dom_mono)
    next
      case False
      with Cons kc show ?thesis by auto
    qed
  qed
  from assms(2,3) have "externalRequests (new_RemoteModule request key config) ! i
      = reference_name key i"
    by (simp add: new_RemoteModule_def external_request_def nth_enumerate_eq)
  with reg show ?thesis by (simp add: remoteExternals_def)
qed

text \<open>The name of a reference determines its number.\<close>

lemma digit_char_inj:
  "d < 10 \<Longrightarrow> d' < 10 \<Longrightarrow> digit_char d = digit_char d' \<Longrightarrow> d = d'"
proof -
  assume "d < 10" "d' < 10" "digit_char d = digit_char d'"
  moreover have "distinct ''0123456789''" by simp
  ultimately show "d = d'"
    by (simp add: digit_char_def nth_eq_iff_index_eq)
qed

lemma show_nat_not_empty:
  "show_nat n \<noteq> []"
  by (subst show_nat.simps) simp

lemma show_nat_inj:
  "show_nat n = show_nat m \<Longrightarrow> n = m"
proof (induction n arbitrary: m rule: show_nat.induct)
  case (1 n)
  show ?case
  proof (cases "n < 10")
    case n: True
    show ?thesis
    proof (cases "m < 10")
      case True
      from "1.prems" have "[digit_char n] = [digit_char m]"
        by (subst (asm) show_nat.simps, subst (asm) (2) show_nat.simps) (simp add: n True)
      with n True show ?thesis by (auto dest: digit_char_inj)
    next
      case False
      from "1.prems" have "[digit_char n] = show_nat (m div 10) @ [digit_char (m mod 10)]"
        by (subst (asm) show_nat.simps, subst (asm) (2) show_nat.simps) (simp add: n False)
      with show_nat_not_empty [of "m div 10"] show ?thesis by simp
    qed
  next
    case n: False
    show ?thesis
    proof (cases "m < 10")
      case True
      from "1.prems" have "show_nat (n div 10) @ [digit_char (n mod 10)] = [digit_char m]"
        by (subst (asm) show_nat.simps, subst (asm) (2) show_nat.simps) (simp add: n True)
      with show_nat_not_empty [of "n div 10"] show ?thesis by simp
    next
      case False
      from "1.prems"
      have "show_nat (n div 10) @ [digit_char (n mod 10)]
              = show_nat (m div 10) @ [digit_char (m mod 10)]"
        by (subst (asm) show_nat.simps, subst (asm) (2) show_nat.simps) (simp add: n False)
      then have a: "show_nat (n div 10) = show_nat (m div 10)"
        and b: "digit_char (n mod 10) = digit_char (m mod 10)"
        by simp_all
      from "1.IH" [OF n a] have "n div 10 = m div 10" .
      moreover from b have "n mod 10 = m mod 10"
        using digit_char_inj [of "n mod 10" "m mod 10"] by simp
      ultimately show ?thesis by (metis div_mult_mod_eq)
    qed
  qed
qed

lemma reference_name_inj:
  "reference_name key j = reference_name key j' \<Longrightarrow> j = j'"
  using show_nat_inj [of j j']
  by (auto simp: reference_name_def split: if_splits)

text \<open>What the registration loop writes.\<close>

lemma register_externals_untouched:
  "(\<And>j. n \<le> j \<Longrightarrow> name \<noteq> reference_name key j) \<Longrightarrow>
     register_externals key es n m name = m name"
proof (induction es arbitrary: n m)
  case Nil
  then show ?case by simp
next
  case (Cons a es)
  show ?case
  proof (cases "prefix ''internal '' a")
    case True
    with Cons.IH [of n m] Cons.prems show ?thesis by simp
  next
    case False
    have "register_externals key es (Suc n) (m(reference_name key n \<mapsto> a)) name
            = (m(reference_name key n \<mapsto> a)) name"
      by (rule Cons.IH) (simp add: Cons.prems)
    with False Cons.prems [of n] show ?thesis by simp
  qed
qed

lemma register_externals_value:
  "i < length es \<Longrightarrow> \<not> prefix ''internal '' (es ! i) \<Longrightarrow>
     register_externals key es n m
       (reference_name key
          (n + length (filter (\<lambda>x. \<not> prefix ''internal '' x) (take i es))))
       = Some (es ! i)"
proof (induction es arbitrary: i n m)
  case Nil
  then show ?case by simp
next
  case (Cons a es)
  show ?case
  proof (cases i)
    case 0
    with Cons.prems have a: "\<not> prefix ''internal '' a" by simp
    have "register_externals key es (Suc n) (m(reference_name key n \<mapsto> a))
            (reference_name key n)
          = (m(reference_name key n \<mapsto> a)) (reference_name key n)"
    proof (rule register_externals_untouched)
      fix j assume "Suc n \<le> j"
      then have "n \<noteq> j" by simp
      then show "reference_name key n \<noteq> reference_name key j"
        by (auto dest: reference_name_inj)
    qed
    with a 0 show ?thesis by simp
  next
    case (Suc i')
    with Cons.prems have len: "i' < length es" and tgt: "\<not> prefix ''internal '' (es ! i')"
      by simp_all
    show ?thesis
    proof (cases "prefix ''internal '' a")
      case True
      with Cons.IH [OF len tgt, of n m] Suc show ?thesis by simp
    next
      case False
      have step: "register_externals key (a # es) n m
                    = register_externals key es (Suc n) (m(reference_name key n \<mapsto> a))"
        using False by simp
      have idx: "n + length (filter (\<lambda>x. \<not> prefix ''internal '' x) (take i (a # es)))
                   = Suc n + length (filter (\<lambda>x. \<not> prefix ''internal '' x) (take i' es))"
        using False Suc by simp
      have tgt': "(a # es) ! i = es ! i'" using Suc by simp
      show ?thesis unfolding step idx tgt' by (rule Cons.IH [OF len tgt])
    qed
  qed
qed

lemma register_externals_source:
  "register_externals key es n m name = Some e \<Longrightarrow>
     m name = Some e
     \<or> (\<exists>i < length es. e = es ! i \<and> \<not> prefix ''internal '' e
           \<and> name = reference_name key
                (n + length (filter (\<lambda>x. \<not> prefix ''internal '' x) (take i es))))"
proof (induction es arbitrary: n m)
  case Nil
  then show ?case by simp
next
  case (Cons a es)
  show ?case
  proof (cases "prefix ''internal '' a")
    case True
    with Cons.prems have "register_externals key es n m name = Some e" by simp
    from Cons.IH [OF this] show ?thesis
    proof
      assume "m name = Some e"
      then show ?thesis by simp
    next
      assume "\<exists>i < length es. e = es ! i \<and> \<not> prefix ''internal '' e
           \<and> name = reference_name key
                (n + length (filter (\<lambda>x. \<not> prefix ''internal '' x) (take i es)))"
      then obtain i where "i < length es" "e = es ! i" "\<not> prefix ''internal '' e"
        "name = reference_name key
                (n + length (filter (\<lambda>x. \<not> prefix ''internal '' x) (take i es)))"
        by blast
      with True have "Suc i < length (a # es) \<and> e = (a # es) ! Suc i
          \<and> \<not> prefix ''internal '' e
          \<and> name = reference_name key
                (n + length (filter (\<lambda>x. \<not> prefix ''internal '' x) (take (Suc i) (a # es))))"
        by simp
      then show ?thesis by blast
    qed
  next
    case False
    with Cons.prems
    have "register_externals key es (Suc n) (m(reference_name key n \<mapsto> a)) name = Some e"
      by simp
    from Cons.IH [OF this] show ?thesis
    proof
      assume u: "(m(reference_name key n \<mapsto> a)) name = Some e"
      show ?thesis
      proof (cases "name = reference_name key n")
        case True
        with u have "e = a" by simp
        with False True have "0 < length (a # es) \<and> e = (a # es) ! 0
          \<and> \<not> prefix ''internal '' e
          \<and> name = reference_name key
                (n + length (filter (\<lambda>x. \<not> prefix ''internal '' x) (take 0 (a # es))))"
          by simp
        then show ?thesis by blast
      next
        case False
        with u show ?thesis by simp
      qed
    next
      assume "\<exists>i < length es. e = es ! i \<and> \<not> prefix ''internal '' e
           \<and> name = reference_name key
                (Suc n + length (filter (\<lambda>x. \<not> prefix ''internal '' x) (take i es)))"
      then obtain i where "i < length es" "e = es ! i" "\<not> prefix ''internal '' e"
        "name = reference_name key
                (Suc n + length (filter (\<lambda>x. \<not> prefix ''internal '' x) (take i es)))"
        by blast
      with False have "Suc i < length (a # es) \<and> e = (a # es) ! Suc i
          \<and> \<not> prefix ''internal '' e
          \<and> name = reference_name key
                (n + length (filter (\<lambda>x. \<not> prefix ''internal '' x) (take (Suc i) (a # es))))"
        by simp
      then show ?thesis by blast
    qed
  qed
qed

lemma collect_remoteExternals_source:
  "collect_remoteExternals remotes m name = Some e \<Longrightarrow>
     m name = Some e
     \<or> (\<exists>(k, c) \<in> set remotes. \<exists>i < length (external c).
           e = external c ! i \<and> \<not> prefix ''internal '' e
           \<and> name = reference_name k
                (length (filter (\<lambda>x. \<not> prefix ''internal '' x) (take i (external c)))))"
proof (induction remotes arbitrary: m)
  case Nil
  then show ?case by simp
next
  case (Cons kc remotes)
  obtain k c where kc: "kc = (k, c)" by (cases kc)
  from Cons.prems kc
  have "collect_remoteExternals remotes (register_externals k (external c) 0 m) name = Some e"
    by simp
  from Cons.IH [OF this] show ?case
  proof
    assume "register_externals k (external c) 0 m name = Some e"
    from register_externals_source [OF this] kc show ?thesis by auto
  next
    assume "\<exists>(k, c) \<in> set remotes. \<exists>i < length (external c).
           e = external c ! i \<and> \<not> prefix ''internal '' e
           \<and> name = reference_name k
                (length (filter (\<lambda>x. \<not> prefix ''internal '' x) (take i (external c))))"
    then show ?thesis by auto
  qed
qed

lemma collect_remoteExternals_untouched:
  "name \<notin> dom (collect_remoteExternals remotes Map.empty) \<Longrightarrow>
     collect_remoteExternals remotes m name = m name"
proof -
  have reg: "register_externals key es n m = m ++ register_externals key es n Map.empty"
    for key es n and m :: "string \<rightharpoonup> string"
  proof (induction es arbitrary: n m)
    case Nil
    then show ?case by simp
  next
    case (Cons a es)
    show ?case
    proof (cases "prefix ''internal '' a")
      case True
      with Cons.IH [of n m] show ?thesis by simp
    next
      case False
      have step: "register_externals key (a # es) n m'
                    = register_externals key es (Suc n) (m'(reference_name key n \<mapsto> a))"
        for m' :: "string \<rightharpoonup> string"
        using False by simp
      have "register_externals key (a # es) n m
              = m(reference_name key n \<mapsto> a) ++ register_externals key es (Suc n) Map.empty"
        unfolding step by (rule Cons.IH)
      moreover have "register_externals key (a # es) n Map.empty
              = [reference_name key n \<mapsto> a] ++ register_externals key es (Suc n) Map.empty"
        unfolding step by (rule Cons.IH)
      moreover have "m(reference_name key n \<mapsto> a) = m ++ [reference_name key n \<mapsto> a]"
        by simp
      ultimately show ?thesis by (simp only: map_add_assoc)
    qed
  qed
  have col: "collect_remoteExternals remotes m = m ++ collect_remoteExternals remotes Map.empty"
    for remotes and m :: "string \<rightharpoonup> string"
  proof (induction remotes arbitrary: m)
    case Nil
    then show ?case by simp
  next
    case (Cons kc remotes)
    obtain k c where kc: "kc = (k, c)" by (cases kc)
    have "collect_remoteExternals (kc # remotes) m
            = (m ++ register_externals k (external c) 0 Map.empty)
                ++ collect_remoteExternals remotes Map.empty"
      using Cons.IH [of "register_externals k (external c) 0 m"] reg [of k "external c" 0 m]
      by (simp add: kc)
    moreover have "collect_remoteExternals (kc # remotes) Map.empty
            = register_externals k (external c) 0 Map.empty
                ++ collect_remoteExternals remotes Map.empty"
      using Cons.IH [of "register_externals k (external c) 0 Map.empty"] by (simp add: kc)
    ultimately show ?case by (simp add: map_add_assoc)
  qed
  assume "name \<notin> dom (collect_remoteExternals remotes Map.empty)"
  with col [of remotes m] show ?thesis
    by (simp add: map_add_def domIff split: option.splits)
qed

lemma collect_remoteExternals_append:
  "collect_remoteExternals (xs @ ys) m = collect_remoteExternals ys (collect_remoteExternals xs m)"
  by (induction xs arbitrary: m) auto

lemma remoteExternals_value:
  assumes "remotes = before @ (key, config) # after"
    and "i < length (external config)" and "\<not> prefix ''internal '' (external config ! i)"
    and "reference_name key
           (length (filter (\<lambda>x. \<not> prefix ''internal '' x) (take i (external config))))
         \<notin> dom (remoteExternals after)"
  shows "remoteExternals remotes
           (reference_name key
              (length (filter (\<lambda>x. \<not> prefix ''internal '' x) (take i (external config)))))
         = Some (external config ! i)"
proof -
  let ?name = "reference_name key
           (length (filter (\<lambda>x. \<not> prefix ''internal '' x) (take i (external config))))"
  let ?m = "collect_remoteExternals before Map.empty"
  have "remoteExternals remotes ?name
          = collect_remoteExternals after (register_externals key (external config) 0 ?m) ?name"
    by (simp add: remoteExternals_def assms(1) collect_remoteExternals_append)
  also have "\<dots> = register_externals key (external config) 0 ?m ?name"
    using assms(4) by (intro collect_remoteExternals_untouched) (simp add: remoteExternals_def)
  also have "\<dots> = Some (external config ! i)"
    using register_externals_value [OF assms(2,3), of key 0 ?m] by simp
  finally show ?thesis .
qed

lemma remoteExternals_registered:
  assumes "(key, config) \<in> set remotes"
    and "i < length (external config)" and "\<not> prefix ''internal '' (external config ! i)"
  shows "reference_name key
           (length (filter (\<lambda>x. \<not> prefix ''internal '' x) (take i (external config))))
         \<in> dom (remoteExternals remotes)"
proof -
  let ?name = "reference_name key
           (length (filter (\<lambda>x. \<not> prefix ''internal '' x) (take i (external config))))"
  have "?name \<in> dom (collect_remoteExternals remotes m)" for m
    using assms(1)
  proof (induction remotes arbitrary: m)
    case Nil
    then show ?case by simp
  next
    case (Cons kc remotes)
    show ?case
    proof (cases "kc = (key, config)")
      case True
      from register_externals_value [OF assms(2,3), of key 0 m]
      have "?name \<in> dom (register_externals key (external config) 0 m)" by auto
      with True show ?thesis by (simp add: collect_remoteExternals_dom_mono)
    next
      case False
      with Cons obtain k c where "kc = (k, c)" "(key, config) \<in> set remotes"
        by (cases kc) auto
      with Cons.IH show ?thesis by simp
    qed
  qed
  then show ?thesis by (simp add: remoteExternals_def)
qed

section \<open>Facts about the container model\<close>

lemma init_delegates:
  "\<not> (truthy (m name) \<and> m name \<noteq> sc) \<Longrightarrow>
     init initializeSharing name sc initScope (Some m) =
       (map_sum id Some (fst (initializeSharing name initScope (m(name := sc)))),
        Some (snd (initializeSharing name initScope (m(name := sc)))))"
  by (cases "initializeSharing name initScope (m(name := sc))")
     (auto simp: init_def Let_def split: sum.splits)

lemma init_throws:
  "truthy (m name) \<Longrightarrow> m name \<noteq> sc \<Longrightarrow>
     init initializeSharing name sc initScope (Some m) =
       (Inl (Error ''Container initialization failed as it has already been initialized with a different share scope''), Some m)"
  by (simp add: init_def)

lemma comma_expression_last:
  "(\<And>m w. fst (require m w) = Inr (exports_of m)) \<Longrightarrow>
     fst (comma_expression require ms acc w)
       = Inr (if ms = [] then acc else Some (Exports (exports_of (fst (last ms)))))"
proof (induction ms arbitrary: acc w)
  case Nil
  then show ?case by simp
next
  case (Cons a ms)
  obtain m request where a: "a = (m, request)" by (cases a)
  obtain w' where r: "require m w = (Inr (exports_of m), w')"
    using Cons.prems [of m w] by (cases "require m w") auto
  show ?case
    using Cons.IH [OF Cons.prems, of "Some (Exports (exports_of m))" w'] a r
    by simp
qed

lemma getter_resolved:
  assumes "dependencies block = d # ds"
    and "\<And>dep. dep \<in> set (d # ds) \<Longrightarrow> getModule dep = Some (module_of dep)"
  shows "getter getModule block =
           Inr (exposedName d,
                ReturnBlockPromiseThen block
                  (map (\<lambda>dep. (module_of dep, userRequest dep)) (d # ds)))"
proof -
  have mf: "List.map_filter
         (\<lambda>(name, module, request). map_option (\<lambda>m. (m, request)) module)
         (map (\<lambda>dep. (exposedName dep, getModule dep, userRequest dep)) xs)
       = map (\<lambda>dep. (module_of dep, userRequest dep)) xs"
    if "\<And>dep. dep \<in> set xs \<Longrightarrow> getModule dep = Some (module_of dep)" for xs
    using that by (induction xs) (auto simp: List.map_filter_simps)
  have ex: "\<not> list_ex (\<lambda>(name, module, request). module = None)
               (map (\<lambda>dep. (exposedName dep, getModule dep, userRequest dep)) (d # ds))"
    using assms(2) by (auto simp: list_ex_iff)
  show ?thesis
    by (simp only: getter_def Let_def assms(1) ex mf [of "d # ds", OF assms(2)] if_False)
       simp
qed

lemma getter_missing:
  assumes "dependencies block = d # ds"
    and "dep \<in> set (d # ds)" and "getModule dep = None"
  shows "getter getModule block =
           Inr (exposedName d,
                ThrowMissingModuleErrorBlock (join_comma (map userRequest (d # ds))))"
proof -
  have ex: "list_ex (\<lambda>(name, module, request). module = None)
               (map (\<lambda>dep. (exposedName dep, getModule dep, userRequest dep)) (d # ds))"
    using assms(2,3) by (force simp: list_ex_iff)
  have rq: "map (\<lambda>(name, module, request). request)
              (map (\<lambda>dep. (exposedName dep, getModule dep, userRequest dep)) xs)
            = map userRequest xs" for xs
    by (induction xs) auto
  show ?thesis
    by (simp only: getter_def Let_def assms(1) ex rq [of "d # ds"] if_True)
       simp
qed


lemmas container_eval_simps =
  getter_def new_block_def enumerate_simps List.map_filter_simps run_loader_def
  invoke_accessor_def

lemma comma_expression_state:
  "(\<And>m w. fst (require m w) = Inr (exports_of m)) \<Longrightarrow>
     snd (comma_expression require ms acc w)
       = foldl (\<lambda>v m. snd (require m v)) w (map fst ms)"
proof (induction ms arbitrary: acc w)
  case Nil
  then show ?case by simp
next
  case (Cons a ms)
  obtain m request where a: "a = (m, request)" by (cases a)
  obtain w' where r: "require m w = (Inr (exports_of m), w')"
    using Cons.prems [of m w] by (cases "require m w") auto
  show ?case
    using Cons.IH [OF Cons.prems, of "Some (Exports (exports_of m))" w'] a r
    by simp
qed

lemma getter_no_import:
  "dependencies block = [] \<Longrightarrow>
     getter getModule block
       = Inl (TypeError ''Cannot read properties of undefined (reading 'name')'')"
  by (simp add: getter_def)

lemma getter_error:
  "getter getModule block = Inl e \<Longrightarrow>
     e = TypeError ''Cannot read properties of undefined (reading 'name')''"
  by (cases "dependencies block") (auto simp: getter_def Let_def)

lemma getters_no_import:
  "block \<in> set blocks \<Longrightarrow> dependencies block = [] \<Longrightarrow>
     getters getModule blocks
       = Inl (TypeError ''Cannot read properties of undefined (reading 'name')'')"
proof (induction blocks)
  case Nil
  then show ?case by simp
next
  case (Cons b blocks)
  show ?case
  proof (cases "getter getModule b")
    case (Inl e)
    with getter_error [OF Inl] show ?thesis by simp
  next
    case (Inr g)
    with Cons.prems getter_no_import [of block getModule] have "block \<in> set blocks" by auto
    from Cons.IH [OF this Cons.prems(2)] Inr show ?thesis by simp
  qed
qed

section \<open>Facts about the shared-module model\<close>

lemmas consume_eval_simps =
  createConsumeSharedModule_def determine_requiredVersion_def choose_packageName_def
  resolve_fallback_def requiredVersionWarning_def directFallback_def is_absolute_request_def
  is_relative_request_def extract_package_name_def is_separator_def is_letter_def
  backslash_def created_def

lemmas sample_consume_simps =
  sample_consume_def sample_collaborators_def sample_getDescriptionFile_def
  sample_description_def sample_compilation_def sample_resolve_def sample_parseRange_def

lemma request_pattern_examples:
  "is_absolute_request ''/abs/path'' \<and> is_absolute_request ''C:/x''
   \<and> is_absolute_request (backslash # backslash # ''server'')
   \<and> \<not> is_absolute_request ''./utils/shared'' \<and> \<not> is_absolute_request ''react''
   \<and> is_relative_request ''.'' \<and> is_relative_request ''..'' \<and> is_relative_request ''./x''
   \<and> is_relative_request ''../x'' \<and> \<not> is_relative_request ''.x''
   \<and> \<not> is_relative_request ''.../x''"
  by (simp add: consume_eval_simps)

lemma extract_package_name_examples:
  "extract_package_name ''react'' = Some ''react''
   \<and> extract_package_name ''react/jsx-runtime'' = Some ''react''
   \<and> extract_package_name ''@scope/pkg/sub'' = Some ''@scope/pkg''
   \<and> extract_package_name ''@scope'' = Some ''@scope''
   \<and> extract_package_name ''@scope/'' = Some ''@scope''
   \<and> extract_package_name ''@/x'' = Some ''@''
   \<and> extract_package_name ''./utils/shared'' = Some ''.''
   \<and> extract_package_name [] = None
   \<and> extract_package_name (backslash # ''lib'') = None"
  by (simp add: consume_eval_simps)

lemma resolve_fallback_warnings:
  "warnings (snd (resolve_fallback env ctx request config c)) = warnings c"
  by (simp add: resolve_fallback_def Let_def split: option.splits)

lemma resolve_fallback_ignores_description_files:
  "resolve_fallback (env\<lparr> env_getDescriptionFile := g \<rparr>) ctx request config c
     = resolve_fallback env ctx request config c"
  by (auto simp: resolve_fallback_def Let_def split: option.splits)

lemma only_warning_intro:
  assumes "\<And>c1. determine_requiredVersion env ctx request config c1
                  = (Inr RV_undefined, requiredVersionWarning request details c1)"
  shows "only_warning env ctx request config c details"
proof -
  obtain ir c1 where r: "resolve_fallback env ctx request config c = (ir, c1)"
    by (cases "resolve_fallback env ctx request config c")
  from resolve_fallback_warnings [of env ctx request config c] r
  have w: "warnings c1 = warnings c" by simp
  show ?thesis
    by (simp add: only_warning_def createConsumeSharedModule_def r assms w
        requiredVersionWarning_def)
qed

lemma choose_packageName_isl:
  "isl (choose_packageName request config c1) = isl (choose_packageName request config c)"
  by (simp add: choose_packageName_def split: option.splits)

lemma determine_requiredVersion_throws_iff:
  "isl (fst (determine_requiredVersion env ctx request config c)) \<longleftrightarrow>
     requiredVersion config = RV_undefined
     \<and> \<not> isl (choose_packageName request config c)
     \<and> env_getDescriptionFile env ctx = DescriptionNoResult"
  by (auto simp: determine_requiredVersion_def
      split: sum.splits description_file.splits option.splits)

lemma createConsumeSharedModule_throws_iff:
  "isl (fst (createConsumeSharedModule env ctx request config c)) \<longleftrightarrow>
     requiredVersion config = RV_undefined
     \<and> \<not> isl (choose_packageName request config c)
     \<and> env_getDescriptionFile env ctx = DescriptionNoResult"
proof -
  obtain ir c1 where r: "resolve_fallback env ctx request config c = (ir, c1)"
    by (cases "resolve_fallback env ctx request config c")
  obtain v c2 where d: "determine_requiredVersion env ctx request config c1 = (v, c2)"
    by (cases "determine_requiredVersion env ctx request config c1")
  have "isl (fst (createConsumeSharedModule env ctx request config c)) = isl v"
    by (cases v) (simp_all add: createConsumeSharedModule_def r d)
  with determine_requiredVersion_throws_iff [of env ctx request config c1] d
    choose_packageName_isl [of request config c1 c]
  show ?thesis by simp
qed

lemma created_module:
  assumes "createConsumeSharedModule env ctx request config c = (Inr m, c')"
  shows "shareKey (csm_options m) = shareKey config"
    and "import (csm_options m)
           = (if truthy_resolved (csm_importResolved m) then import config else None)"
    and "csm_importResolved m = fst (resolve_fallback env ctx request config c)"
  using assms
  by (auto simp: createConsumeSharedModule_def split: prod.splits sum.splits)

lemma createConsumeSharedModule_absolute:
  assumes "requiredVersion config = RV_undefined" and "packageName config = None"
    and "is_absolute_request request"
  shows "createConsumeSharedModule env ctx request config c
           = (Inr \<lparr> csm_context =
                      (if directFallback config then env_compiler_context env else ctx),
                    csm_options =
                      config\<lparr> import :=
                                (if truthy_resolved
                                      (fst (resolve_fallback env ctx request config c))
                                 then import config else None),
                              requiredVersion := RV_undefined \<rparr>,
                    csm_importResolved = fst (resolve_fallback env ctx request config c) \<rparr>,
              snd (resolve_fallback env ctx request config c))"
  using assms
  by (simp add: createConsumeSharedModule_def determine_requiredVersion_def
      choose_packageName_def split: prod.splits)

lemma absolute_request_without_inference:
  assumes "requiredVersion config = RV_undefined" and "packageName config = None"
    and "is_absolute_request request"
  shows "without_inference (created (createConsumeSharedModule env ctx request config c)) c"
    and "createConsumeSharedModule (env\<lparr> env_getDescriptionFile := g \<rparr>) ctx request config c
           = createConsumeSharedModule env ctx request config c"
proof -
  show "without_inference (created (createConsumeSharedModule env ctx request config c)) c"
    by (simp add: createConsumeSharedModule_absolute [OF assms] created_def
        without_inference_def resolve_fallback_warnings)
  show "createConsumeSharedModule (env\<lparr> env_getDescriptionFile := g \<rparr>) ctx request config c
           = createConsumeSharedModule env ctx request config c"
    by (simp add: createConsumeSharedModule_absolute [OF assms]
        resolve_fallback_ignores_description_files)
qed

lemma prefixed_loop_find:
  "find (\<lambda>(p, options). prefix p request) prefixedConsumes = Some (pfx, options) \<Longrightarrow>
     prefixed_loop env prefixedConsumes ctx request c =
       created (createConsumeSharedModule env ctx request
                (options\<lparr> import := (case import options of
                                       None \<Rightarrow> None
                                     | Some i \<Rightarrow> if i = [] then None
                                                else Some (i @ drop (length pfx) request)),
                          shareKey := shareKey options @ drop (length pfx) request \<rparr>) c)"
  by (induction env prefixedConsumes ctx request c rule: prefixed_loop.induct)
     (auto simp: Let_def split: if_splits)

lemma prefixed_loop_none:
  "find (\<lambda>(p, options). prefix p request) prefixedConsumes = None \<Longrightarrow>
     prefixed_loop env prefixedConsumes ctx request c = (Inr None, c)"
  by (induction env prefixedConsumes ctx request c rule: prefixed_loop.induct)
     (auto split: if_splits)

lemma configured_version_is_kept:
  "requiredVersion config \<noteq> RV_undefined \<Longrightarrow>
     determine_requiredVersion env ctx request config c = (Inr (requiredVersion config), c)"
  by (simp add: determine_requiredVersion_def)

lemma is_absolute_path_request:
  "is_absolute_path p \<Longrightarrow> is_absolute_request p"
  by (auto simp: is_absolute_path_def is_absolute_request_def split: list.splits)

lemma relative_is_not_absolute_path:
  "is_relative_request p \<Longrightarrow> \<not> is_absolute_path p"
  by (auto simp: is_absolute_path_def is_relative_request_def is_letter_def backslash_def
      split: list.splits)

lemma prefix_of_relative_request:
  assumes "prefix p r" and "p \<noteq> []" and "last p = CHR ''/''" and "is_relative_request r"
  shows "is_relative_request p"
proof -
  from assms(1) obtain s where r: "r = p @ s" by (auto simp: prefix_def)
  from assms(2) obtain a p1 where p: "p = a # p1" by (cases p) auto
  from assms(4) r p have a: "a = CHR ''.''"
    by (simp add: is_relative_request_def)
  from assms(3) p a have "p1 \<noteq> []" by auto
  then obtain b p2 where p1: "p1 = b # p2" by (cases p1) auto
  show ?thesis
  proof (cases "b = CHR ''/''")
    case True
    with p p1 a show ?thesis by (simp add: is_relative_request_def)
  next
    case False
    with assms(4) r p p1 a have b: "b = CHR ''.''"
      by (simp add: is_relative_request_def)
    from assms(3) p p1 b have "p2 \<noteq> []" by auto
    then obtain d p3 where p2: "p2 = d # p3" by (cases p2) auto
    with assms(4) r p p1 a b have "d = CHR ''/''"
      by (simp add: is_relative_request_def)
    with p p1 p2 a b show ?thesis by (simp add: is_relative_request_def)
  qed
qed

lemma set_map_set:
  "set (map_set k v xs) \<subseteq> insert (k, v) (set xs)"
  by (induction xs) (auto split: if_splits)

lemma match_config_routed:
  assumes "\<And>request p. res_result (env_resolve env (env_compiler_context env) request) = IR_path p
             \<Longrightarrow> is_absolute_request p"
    and "well_routed (fst state)"
  shows "well_routed (fst (match_config env entry state))"
proof -
  obtain request config where e: "entry = (request, config)" by (cases entry)
  obtain M c where s: "state = (M, c)" by (cases state)
  from assms(2) s have w: "well_routed M" by simp
  consider (rel) "is_relative_request request"
    | (abs) "\<not> is_relative_request request" "is_absolute_path request"
    | (pre) "\<not> is_relative_request request" "\<not> is_absolute_path request"
        "request \<noteq> [] \<and> last request = CHR ''/''"
    | (exact) "\<not> is_relative_request request" "\<not> is_absolute_path request"
        "\<not> (request \<noteq> [] \<and> last request = CHR ''/'')"
    by blast
  then show ?thesis
  proof cases
    case rel
    with w assms(1) [of request] show ?thesis
      by (auto simp: match_config_def e s Let_def well_routed_def
          split: option.splits import_resolved.splits)
  next
    case abs
    with w is_absolute_path_request [of request] show ?thesis
      by (auto simp: match_config_def e s well_routed_def)
  next
    case pre
    with w set_map_set [of request config "prefixed M"] show ?thesis
      by (auto simp: match_config_def e s well_routed_def)
  next
    case exact
    with w show ?thesis
      by (auto simp: match_config_def e s well_routed_def)
  qed
qed

lemma foldl_match_config_routed:
  assumes "\<And>request p. res_result (env_resolve env (env_compiler_context env) request) = IR_path p
             \<Longrightarrow> is_absolute_request p"
  shows "well_routed (fst state) \<Longrightarrow>
           well_routed (fst (foldl (\<lambda>state entry. match_config env entry state) state configs))"
proof (induction configs arbitrary: state)
  case Nil
  then show ?case by simp
next
  case (Cons entry configs)
  from match_config_routed [where entry = entry, OF assms Cons.prems]
  have "well_routed (fst (match_config env entry state))" .
  from Cons.IH [OF this] show ?case by simp
qed

lemma resolveMatchedConfigs_routed:
  assumes "\<And>request p. res_result (env_resolve env (env_compiler_context env) request) = IR_path p
             \<Longrightarrow> is_absolute_request p"
  shows "well_routed (fst (resolveMatchedConfigs env configs c))"
proof -
  have "well_routed (fst (\<lparr> resolved = Map.empty, unresolved = Map.empty, prefixed = [] \<rparr>, c))"
    by (simp add: well_routed_def)
  from foldl_match_config_routed [OF assms this]
  show ?thesis by (simp add: resolveMatchedConfigs_def)
qed

lemma match_config_resolved_mono:
  "p \<in> dom (resolved (fst state)) \<Longrightarrow> p \<in> dom (resolved (fst (match_config env entry state)))"
  by (cases entry; cases state)
     (auto simp: match_config_def Let_def split: option.splits import_resolved.splits)

lemma foldl_match_config_resolved_mono:
  "p \<in> dom (resolved (fst state)) \<Longrightarrow>
     p \<in> dom (resolved (fst (foldl (\<lambda>state entry. match_config env entry state) state configs)))"
proof (induction configs arbitrary: state)
  case Nil
  then show ?case by simp
next
  case (Cons entry configs)
  from match_config_resolved_mono [OF Cons.prems, of env entry]
  have "p \<in> dom (resolved (fst (match_config env entry state)))" .
  from Cons.IH [OF this] show ?case by simp
qed

lemma foldl_match_config_stores:
  assumes "(key, config) \<in> set configs"
    and "\<And>state. p \<in> dom (resolved (fst (match_config env (key, config) state)))"
  shows "p \<in> dom (resolved (fst (foldl (\<lambda>state entry. match_config env entry state) state0 configs)))"
  using assms(1)
proof (induction configs arbitrary: state0)
  case Nil
  then show ?case by simp
next
  case (Cons entry configs)
  show ?case
  proof (cases "entry = (key, config)")
    case True
    from assms(2) [of state0] have "p \<in> dom (resolved (fst (match_config env entry state0)))"
      using True by simp
    from foldl_match_config_resolved_mono [OF this] show ?thesis by simp
  next
    case False
    with Cons.prems have "(key, config) \<in> set configs" by simp
    from Cons.IH [OF this] show ?thesis by simp
  qed
qed

lemma relative_key_is_resolved:
  assumes "(key, config) \<in> set configs" and "is_relative_request key"
    and "res_err (env_resolve env (env_compiler_context env) key) = None"
    and "res_result (env_resolve env (env_compiler_context env) key) = IR_path p"
  shows "p \<in> dom (resolved (fst (resolveMatchedConfigs env configs c)))"
  unfolding resolveMatchedConfigs_def
proof (rule foldl_match_config_stores [OF assms(1)])
  show "p \<in> dom (resolved (fst (match_config env (key, config) state)))" for state
    using assms(2,3,4) by (cases state) (simp add: match_config_def Let_def)
qed

lemma absolute_key_is_resolved:
  assumes "(key, config) \<in> set configs" and "is_absolute_path key"
  shows "key \<in> dom (resolved (fst (resolveMatchedConfigs env configs c)))"
  unfolding resolveMatchedConfigs_def
proof (rule foldl_match_config_stores [OF assms(1)])
  from assms(2) relative_is_not_absolute_path [of key]
  have "\<not> is_relative_request key" by blast
  with assms(2) show "key \<in> dom (resolved (fst (match_config env (key, config) state)))"
    for state
    by (cases state) (simp add: match_config_def)
qed

lemma created_Inr:
  "fst r = Inr m \<Longrightarrow> created r = (Inr (Some m), snd r)"
  by (cases r) (simp add: created_def)

lemma created_eq_module:
  "created r = (Inr (Some m), c') \<longleftrightarrow> r = (Inr m, c')"
  by (cases r; cases "fst r") (auto simp: created_def)

text \<open>The failures that the callback handles: each leaves one warning, no error of its own,
  and a module without required version.\<close>

lemma version_failure_is_one_warning:
  "requiredVersion config = RV_undefined \<longrightarrow>
     (packageName config = None \<and> \<not> is_absolute_request request
        \<and> extract_package_name request = None \<longrightarrow>
      only_warning env ctx request config c ''Unable to extract the package name from request.'')
     \<and> (packageName config = Some p
          \<or> (packageName config = None \<and> \<not> is_absolute_request request
              \<and> extract_package_name request = Some p) \<longrightarrow>
         (env_getDescriptionFile env ctx = DescriptionError err \<longrightarrow>
            only_warning env ctx request config c (''Unable to read description file: '' @ err))
         \<and> (env_getDescriptionFile env ctx = DescriptionFile None descriptionPath \<longrightarrow>
              only_warning env ctx request config c
                (''Unable to find description file in '' @ ctx @ ''.''))
         \<and> (env_getDescriptionFile env ctx = DescriptionFile (Some data) descriptionPath
              \<and> env_getRequiredVersionFromDescriptionFile env data p = None \<longrightarrow>
              only_warning env ctx request config c
                (''Unable to find required version for '' @ [CHR 0x22] @ p @ [CHR 0x22]
                 @ '' in description file ('' @ descriptionPath
                 @ ''). It need to be in dependencies, devDependencies or peerDependencies.'')))"
proof -
  have name: "choose_packageName request config c1 = Inr p"
    if "packageName config = Some p
          \<or> (packageName config = None \<and> \<not> is_absolute_request request
              \<and> extract_package_name request = Some p)" for c1
    using that by (auto simp: choose_packageName_def)
  have 1: "only_warning env ctx request config c
             ''Unable to extract the package name from request.''"
    if "requiredVersion config = RV_undefined" "packageName config = None"
      "\<not> is_absolute_request request" "extract_package_name request = None"
    using that
    by (intro only_warning_intro) (simp add: determine_requiredVersion_def choose_packageName_def)
  have 2: "only_warning env ctx request config c (''Unable to read description file: '' @ err)"
    if "requiredVersion config = RV_undefined"
      "packageName config = Some p
          \<or> (packageName config = None \<and> \<not> is_absolute_request request
              \<and> extract_package_name request = Some p)"
      "env_getDescriptionFile env ctx = DescriptionError err"
    using that(1,3) name [OF that(2)]
    by (intro only_warning_intro) (simp add: determine_requiredVersion_def)
  have 3: "only_warning env ctx request config c
             (''Unable to find description file in '' @ ctx @ ''.'')"
    if "requiredVersion config = RV_undefined"
      "packageName config = Some p
          \<or> (packageName config = None \<and> \<not> is_absolute_request request
              \<and> extract_package_name request = Some p)"
      "env_getDescriptionFile env ctx = DescriptionFile None descriptionPath"
    using that(1,3) name [OF that(2)]
    by (intro only_warning_intro) (simp add: determine_requiredVersion_def)
  have 4: "only_warning env ctx request config c
                (''Unable to find required version for '' @ [CHR 0x22] @ p @ [CHR 0x22]
                 @ '' in description file ('' @ descriptionPath
                 @ ''). It need to be in dependencies, devDependencies or peerDependencies.'')"
    if "requiredVersion config = RV_undefined"
      "packageName config = Some p
          \<or> (packageName config = None \<and> \<not> is_absolute_request request
              \<and> extract_package_name request = Some p)"
      "env_getDescriptionFile env ctx = DescriptionFile (Some data) descriptionPath"
      "env_getRequiredVersionFromDescriptionFile env data p = None"
    using that(1,3,4) name [OF that(2)]
    by (intro only_warning_intro) (simp add: determine_requiredVersion_def)
  from 1 2 3 4 show ?thesis by blast
qed

section \<open>Default of \<^verbatim>\<open>strictVersion\<close>\<close>

text \<open>
  Claim C3, as stated, for a short-hand entry: the entry \<^verbatim>\<open>react: "react"\<close> (value equal to
  its key) has no singleton flag and keeps its import, yet its parsed \<^verbatim>\<open>strictVersion\<close>
  is false.
\<close>

theorem C3_shorthand_counterexample:
  "consumes_normalizeSimple sample_isRequiredVersion sample_parseRange None
      (ItemString ''react'') ''react''
   = Inr \<lparr> import = Some ''react'', shareScope = ''default'', shareKey = ''react'',
           requiredVersion = RV_undefined, strictVersion = False, packageName = None,
           singleton = False, eager = False \<rparr>"
  by (simp add: consumes_normalizeSimple_def str_or_def)

text \<open>
  Claim C3, amended.  Long-hand entry without a boolean \<^verbatim>\<open>strictVersion\<close>: the parsed
  field is true exactly when \<^verbatim>\<open>singleton\<close> is not set (falsy) and \<^verbatim>\<open>import\<close> is not
  \<^verbatim>\<open>false\<close>.  Short-hand entry (which can set neither flag): the parsed field is true
  exactly when the value differs from the key and is a version requirement, that is,
  exactly when the entry carries a required version; \<^verbatim>\<open>singleton\<close> is false and the
  import is the key.
\<close>

theorem C3_strictVersion_default:
  "(item_strictVersion item = None \<longrightarrow>
      strictVersion (consumes_normalizeOptions parseRange scope item key)
        = (\<not> truthy_bool (item_singleton item) \<and> item_import item \<noteq> Import_false))
   \<and> (consumes_normalizeSimple isRequiredVersion parseRange scope (ItemString s) key = Inr r \<longrightarrow>
        strictVersion r = (s \<noteq> key \<and> isRequiredVersion s)
        \<and> strictVersion r = (requiredVersion r \<noteq> RV_undefined)
        \<and> \<not> singleton r \<and> import r = Some key)"
  by (auto simp: consumes_normalizeOptions_def consumes_normalizeSimple_def)

theorem C3_strictVersion_default_witness:
  "item_strictVersion sample_longhand = None
   \<and> \<not> strictVersion (consumes_normalizeOptions sample_parseRange None sample_longhand ''react'')
   \<and> truthy_bool (item_singleton sample_longhand)
   \<and> consumes_normalizeSimple sample_isRequiredVersion sample_parseRange None
        (ItemString ''^17.0.0'') ''react''
      = Inr \<lparr> import = Some ''react'', shareScope = ''default'', shareKey = ''react'',
              requiredVersion = RV_range ''^17.0.0'', strictVersion = True, packageName = None,
              singleton = False, eager = False \<rparr>
   \<and> sample_isRequiredVersion ''^17.0.0''"
  using C3_strictVersion_default
    [of sample_longhand sample_parseRange None "''react''" sample_isRequiredVersion "''^17.0.0''"
        "\<lparr> import = Some ''react'', shareScope = ''default'', shareKey = ''react'',
              requiredVersion = RV_range ''^17.0.0'', strictVersion = True, packageName = None,
              singleton = False, eager = False \<rparr>"]
  by (simp add: sample_longhand_def truthy_bool_def consumes_normalizeSimple_def
      sample_isRequiredVersion_def sample_parseRange_def str_or_def)

section \<open>Matching an import request to a remote\<close>

text \<open>
  Claim C4, as stated, with two configured keys \<^verbatim>\<open>app\<close> and \<^verbatim>\<open>app/sub\<close> (in this order):
  the request \<^verbatim>\<open>app/sub/x\<close> starts with the key \<^verbatim>\<open>app/sub\<close> and continues with
  \<^verbatim>\<open>/\<close>, yet the hook does not build the module of remote \<^verbatim>\<open>app/sub\<close> (last
  conjunct): it returns the module of remote \<^verbatim>\<open>app\<close>, with internal request
  \<^verbatim>\<open>./sub/x\<close>, because the loop returns at the first key that matches.
\<close>

theorem C4_overlapping_keys_counterexample:
  "prefix ''app/sub'' ''app/sub/x''
   \<and> ''app/sub/x'' ! length ''app/sub'' = CHR ''/''
   \<and> CHR ''!'' \<notin> set ''app/sub/x''
   \<and> map fst sample_remotes_overlap = [''app'', ''app/sub'']
   \<and> factorize sample_remotes_overlap ''app/sub/x''
       = Some \<lparr> rm_request = ''app/sub/x'',
                 externalRequests = [''webpack/container/reference/app''],
                 internalRequest = ''./sub/x'',
                 rm_shareScope = ''default'' \<rparr>
   \<and> new_RemoteModule ''app/sub/x'' ''app/sub'' (snd (sample_remotes_overlap ! 1))
       = \<lparr> rm_request = ''app/sub/x'',
            externalRequests = [''webpack/container/reference/app/sub''],
            internalRequest = ''./x'',
            rm_shareScope = ''other'' \<rparr>"
  by (simp add: sample_remotes_overlap_def remote_eval_simps)

text \<open>
  Claim C4, amended.  For a request \<open>r\<close>, the hook returns nothing when \<open>r\<close> contains
  \<^verbatim>\<open>!\<close>; otherwise it returns the RemoteModule of the first configured entry, in
  configuration order, whose key \<open>k\<close> is such that \<open>r\<close> starts with \<open>k\<close> and either \<open>r\<close>
  has exactly the length of \<open>k\<close> or the character of \<open>r\<close> at position \<open>length k\<close> is
  \<^verbatim>\<open>/\<close>, and nothing when no configured key is such.  In particular an entry with key
  \<^verbatim>\<open>app1\<close> is passed over by the request \<^verbatim>\<open>app1-extra\<close>.
\<close>

theorem C4_request_matched_to_first_key:
  "factorize remotes r =
     (if CHR ''!'' \<in> set r then None
      else map_option (\<lambda>(k, c). new_RemoteModule r k c)
             (find (\<lambda>(k, c). prefix k r \<and> (length r = length k \<or> r ! length k = CHR ''/''))
                remotes))
   \<and> factorize ((''app1'', c1) # rest) ''app1-extra'' = factorize rest ''app1-extra''"
  by (simp add: factorize_def factorize_loop_find request_matches_iff)

section \<open>Internal targets of a remote\<close>

text \<open>
  Claim C7.  The position \<open>i\<close> of a target that does not begin with \<^verbatim>\<open>internal \<close> has the
  number \<open>j\<close> of such targets before it in the same remote, and the reference name
  \<^verbatim>\<open>webpack/container/reference/<key>\<close>, followed by \<^verbatim>\<open>/fallback-<j>\<close> when \<open>j\<close> is not zero.
  \<^item> No target that begins with \<^verbatim>\<open>internal \<close> is a value of the registered externals.
  \<^item> Every registered external is such a target of some remote, at some position, under the
    reference name of that remote and position.
  \<^item> For every such target of every remote its reference name is registered.
  \<^item> It is registered with the target itself as its value, unless a remote declared later
    registers the same name.
  \<^item> When a request (without \<^verbatim>\<open>!\<close>) is matched to the remote \<open>(key, config)\<close>, the RemoteModule
    has one request per target, in order: at position \<open>i\<close> the target without its first nine
    characters when the target begins with \<^verbatim>\<open>internal \<close>, and otherwise
    \<^verbatim>\<open>webpack/container/reference/<key>\<close>, followed by \<^verbatim>\<open>/fallback-<i>\<close> when \<open>i\<close> is not the
    first position.
\<close>

theorem C7_internal_targets:
  "(prefix ''internal '' e \<longrightarrow> remoteExternals remotes name \<noteq> Some e)
   \<and> (remoteExternals remotes name = Some e \<longrightarrow>
        (\<exists>(k, c) \<in> set remotes. \<exists>p < length (external c).
           e = external c ! p \<and> \<not> prefix ''internal '' e
           \<and> name = ''webpack/container/reference/'' @ k @
                (if length (filter (\<lambda>x. \<not> prefix ''internal '' x) (take p (external c))) = 0
                 then []
                 else ''/fallback-'' @ show_nat
                   (length (filter (\<lambda>x. \<not> prefix ''internal '' x) (take p (external c)))))))
   \<and> ((key, config) \<in> set remotes \<and> i < length (external config)
        \<and> \<not> prefix ''internal '' (external config ! i) \<longrightarrow>
        reference_name key
          (length (filter (\<lambda>x. \<not> prefix ''internal '' x) (take i (external config))))
        \<in> dom (remoteExternals remotes))
   \<and> (remotes = before @ (key, config) # after \<and> i < length (external config)
        \<and> \<not> prefix ''internal '' (external config ! i)
        \<and> reference_name key
             (length (filter (\<lambda>x. \<not> prefix ''internal '' x) (take i (external config))))
           \<notin> dom (remoteExternals after) \<longrightarrow>
        remoteExternals remotes
          (reference_name key
             (length (filter (\<lambda>x. \<not> prefix ''internal '' x) (take i (external config)))))
        = Some (external config ! i))
   \<and> (CHR ''!'' \<notin> set r \<and> find (\<lambda>(k, c). request_matches k r) remotes = Some (key, config)
        \<and> i < length (external config) \<longrightarrow>
       (\<exists>m. factorize remotes r = Some m
          \<and> length (externalRequests m) = length (external config)
          \<and> externalRequests m ! i =
              (if prefix ''internal '' (external config ! i) then drop 9 (external config ! i)
               else ''webpack/container/reference/'' @ key @
                    (if i = 0 then [] else ''/fallback-'' @ show_nat i))))"
proof -
  have a: "remoteExternals remotes name \<noteq> Some e" if "prefix ''internal '' e"
    using that collect_remoteExternals_source [of remotes Map.empty name e]
    by (auto simp: remoteExternals_def)
  have a': "\<exists>(k, c) \<in> set remotes. \<exists>p < length (external c).
           e = external c ! p \<and> \<not> prefix ''internal '' e
           \<and> name = ''webpack/container/reference/'' @ k @
                (if length (filter (\<lambda>x. \<not> prefix ''internal '' x) (take p (external c))) = 0
                 then []
                 else ''/fallback-'' @ show_nat
                   (length (filter (\<lambda>x. \<not> prefix ''internal '' x) (take p (external c)))))"
    if "remoteExternals remotes name = Some e"
  proof -
    from that collect_remoteExternals_source [of remotes Map.empty name e]
    obtain k c p where "(k, c) \<in> set remotes" "p < length (external c)" "e = external c ! p"
      "\<not> prefix ''internal '' e"
      "name = reference_name k
         (length (filter (\<lambda>x. \<not> prefix ''internal '' x) (take p (external c))))"
      by (auto simp: remoteExternals_def)
    then show ?thesis
      by (intro bexI [of _ "(k, c)"]) (auto simp: reference_name_def intro!: exI [of _ p])
  qed
  have b: "factorize remotes r = Some (new_RemoteModule r key config)"
    if "CHR ''!'' \<notin> set r" "find (\<lambda>(k, c). request_matches k r) remotes = Some (key, config)"
    using that by (simp add: factorize_def factorize_loop_find)
  have c: "externalRequests (new_RemoteModule r key config) ! i =
              (if prefix ''internal '' (external config ! i) then drop 9 (external config ! i)
               else ''webpack/container/reference/'' @ key @
                    (if i = 0 then [] else ''/fallback-'' @ show_nat i))"
    if "i < length (external config)"
    using that external_requests_nth [of i "external config" key]
    by (simp add: new_RemoteModule_def reference_name_def)
  have d: "length (externalRequests (new_RemoteModule r key config)) = length (external config)"
    by (simp add: new_RemoteModule_def)
  note e = remoteExternals_registered [of key config remotes i]
  note f = remoteExternals_value [of remotes before key config after i]
  show ?thesis
  proof (intro conjI impI)
    assume "CHR ''!'' \<notin> set r \<and> find (\<lambda>(k, c). request_matches k r) remotes = Some (key, config)
        \<and> i < length (external config)"
    with b c d show "\<exists>m. factorize remotes r = Some m
          \<and> length (externalRequests m) = length (external config)
          \<and> externalRequests m ! i =
              (if prefix ''internal '' (external config ! i) then drop 9 (external config ! i)
               else ''webpack/container/reference/'' @ key @
                    (if i = 0 then [] else ''/fallback-'' @ show_nat i))"
      by simp
  qed (use a a' e f in blast)+
qed

theorem C7_internal_targets_witness:
  "prefix ''internal '' ''internal ./local''
   \<and> remoteExternals sample_remotes_fallback ''webpack/container/reference/app1/fallback-1''
        \<noteq> Some ''internal ./local''
   \<and> remoteExternals sample_remotes_fallback ''webpack/container/reference/app1''
        = Some ''app1@http://a/remoteEntry.js''
   \<and> (\<exists>(k, c) \<in> set sample_remotes_fallback. \<exists>p < length (external c).
          ''app1@http://a/remoteEntry.js'' = external c ! p
          \<and> ''webpack/container/reference/app1'' = ''webpack/container/reference/'' @ k @
                (if length (filter (\<lambda>x. \<not> prefix ''internal '' x) (take p (external c))) = 0
                 then []
                 else ''/fallback-'' @ show_nat
                   (length (filter (\<lambda>x. \<not> prefix ''internal '' x) (take p (external c))))))
   \<and> sample_remotes_internal_first ! 0 \<in> set sample_remotes_internal_first
   \<and> sample_remotes_internal_first = [] @ sample_remotes_internal_first ! 0 # []
   \<and> \<not> prefix ''internal '' (external (snd (sample_remotes_internal_first ! 0)) ! 1)
   \<and> ''webpack/container/reference/app1'' \<notin> dom (remoteExternals [])
   \<and> ''webpack/container/reference/app1'' \<in> dom (remoteExternals sample_remotes_internal_first)
   \<and> remoteExternals sample_remotes_internal_first ''webpack/container/reference/app1''
       = Some ''app1@http://a/remoteEntry.js''
   \<and> CHR ''!'' \<notin> set ''app1/routes''
   \<and> find (\<lambda>(k, c). request_matches k ''app1/routes'') sample_remotes_fallback
       = Some (sample_remotes_fallback ! 0)
   \<and> (\<exists>m. factorize sample_remotes_fallback ''app1/routes'' = Some m
          \<and> length (externalRequests m) = 2
          \<and> externalRequests m ! 1 = ''./local'')"
proof -
  have r: "remoteExternals sample_remotes_fallback ''webpack/container/reference/app1''
        = Some ''app1@http://a/remoteEntry.js''"
    by (simp add: sample_remotes_fallback_def remote_eval_simps)
  from r C7_internal_targets
    [of "''app1@http://a/remoteEntry.js''" sample_remotes_fallback
        "''webpack/container/reference/app1''" "''app1''" "snd (sample_remotes_fallback ! 0)" 1
        "[]" "[]" "''app1/routes''"]
  have b: "\<exists>(k, c) \<in> set sample_remotes_fallback. \<exists>p < length (external c).
          ''app1@http://a/remoteEntry.js'' = external c ! p
          \<and> ''webpack/container/reference/app1'' = ''webpack/container/reference/'' @ k @
                (if length (filter (\<lambda>x. \<not> prefix ''internal '' x) (take p (external c))) = 0
                 then []
                 else ''/fallback-'' @ show_nat
                   (length (filter (\<lambda>x. \<not> prefix ''internal '' x) (take p (external c)))))"
    by blast
  from C7_internal_targets
    [of "''internal ./local''" sample_remotes_fallback
        "''webpack/container/reference/app1/fallback-1''" "''app1''"
        "snd (sample_remotes_fallback ! 0)" 1 "[]" "[]" "''app1/routes''"]
  have a: "remoteExternals sample_remotes_fallback ''webpack/container/reference/app1/fallback-1''
        \<noteq> Some ''internal ./local''
   \<and> (\<exists>m. factorize sample_remotes_fallback ''app1/routes'' = Some m
          \<and> length (externalRequests m) = 2
          \<and> externalRequests m ! 1 = ''./local'')"
    by (simp add: sample_remotes_fallback_def request_matches_def numeral_2_eq_2)
  have f: "find (\<lambda>(k, c). request_matches k ''app1/routes'') sample_remotes_fallback
       = Some (sample_remotes_fallback ! 0)"
    by (simp add: sample_remotes_fallback_def request_matches_def)
  have h: "sample_remotes_internal_first ! 0 \<in> set sample_remotes_internal_first"
    "sample_remotes_internal_first = [] @ sample_remotes_internal_first ! 0 # []"
    "\<not> prefix ''internal '' (external (snd (sample_remotes_internal_first ! 0)) ! 1)"
    "''webpack/container/reference/app1'' \<notin> dom (remoteExternals [])"
    by (simp_all add: sample_remotes_internal_first_def remoteExternals_def)
  from C7_internal_targets
    [of "''internal ./local''" sample_remotes_internal_first
        "''webpack/container/reference/app1''" "''app1''"
        "snd (sample_remotes_internal_first ! 0)" 1 "[]" "[]" "''app1/routes''"]
  have g: "''webpack/container/reference/app1'' \<in> dom (remoteExternals sample_remotes_internal_first)
   \<and> remoteExternals sample_remotes_internal_first ''webpack/container/reference/app1''
       = Some ''app1@http://a/remoteEntry.js''"
    by (simp add: sample_remotes_internal_first_def reference_name_def remoteExternals_def)
  from a b r f g h show ?thesis by simp
qed

section \<open>Numbering of the external references\<close>

text \<open>
  Claim C10 at the remote \<^verbatim>\<open>app1: ["internal ./local", "app1@http://a/remoteEntry.js"]\<close>
  and the request \<^verbatim>\<open>app1/routes\<close>: the RemoteModule refers to
  \<^verbatim>\<open>webpack/container/reference/app1/fallback-1\<close> (position 1 of the whole list), a name
  that is not registered; the registration counted the target as number 0 and registered
  it under \<^verbatim>\<open>webpack/container/reference/app1\<close>.
\<close>

theorem C10_internal_first_mismatch:
  "factorize sample_remotes_internal_first ''app1/routes''
     = Some \<lparr> rm_request = ''app1/routes'',
               externalRequests = [''./local'', ''webpack/container/reference/app1/fallback-1''],
               internalRequest = ''./routes'',
               rm_shareScope = ''default'' \<rparr>
   \<and> remoteExternals sample_remotes_internal_first ''webpack/container/reference/app1/fallback-1''
       = None
   \<and> remoteExternals sample_remotes_internal_first ''webpack/container/reference/app1''
       = Some ''app1@http://a/remoteEntry.js''"
  by (simp add: sample_remotes_internal_first_def remote_eval_simps)

section \<open>The handshake \<^verbatim>\<open>init\<close>\<close>

text \<open>
  Claim C1, as stated, where the container was built without the share-scope registry
  (\<^verbatim>\<open>RuntimeGlobals.shareScopeMap\<close> is \<^verbatim>\<open>undefined\<close>, so no slot holds anything):
  \<^verbatim>\<open>init\<close> returns \<^verbatim>\<open>undefined\<close> at its first line and binds nothing; the registry is
  still missing afterwards.
\<close>

theorem C1_registry_absent_counterexample:
  "init sample_initializeSharing ''default'' (JObj 1) [] None = (Inr None, None)"
  by (simp add: init_def)

text \<open>
  Claim C1, amended.  When the registry exists: if the slot of the scope name is empty,
  \<^verbatim>\<open>init\<close> binds it to \<^verbatim>\<open>shareScope\<close> and hands the registry so updated to
  \<^verbatim>\<open>initializeSharing\<close>, whose result it returns; if the slot holds an object other
  than \<^verbatim>\<open>shareScope\<close>, \<^verbatim>\<open>init\<close> throws the Error with the message below and leaves the
  registry as it was; if the slot holds \<^verbatim>\<open>shareScope\<close> itself, \<^verbatim>\<open>init\<close> throws nothing
  of its own and hands the unchanged registry to \<^verbatim>\<open>initializeSharing\<close>.  When the
  registry does not exist, \<^verbatim>\<open>init\<close> returns \<^verbatim>\<open>undefined\<close> and binds nothing.
\<close>

theorem C1_init_share_scope:
  "(m name = JUndefined \<longrightarrow>
      init initializeSharing name sc initScope (Some m) =
       (map_sum id Some (fst (initializeSharing name initScope (m(name := sc)))),
        Some (snd (initializeSharing name initScope (m(name := sc)))))
      \<and> (m(name := sc)) name = sc)
   \<and> (m name = JObj a \<and> JObj a \<noteq> sc \<longrightarrow>
        init initializeSharing name sc initScope (Some m) =
          (Inl (Error ''Container initialization failed as it has already been initialized with a different share scope''),
           Some m))
   \<and> (m name = sc \<longrightarrow>
        init initializeSharing name sc initScope (Some m) =
          (map_sum id Some (fst (initializeSharing name initScope m)),
           Some (snd (initializeSharing name initScope m))))
   \<and> init initializeSharing name sc initScope None = (Inr None, None)"
proof -
  have 1: "init initializeSharing name sc initScope (Some m) =
       (map_sum id Some (fst (initializeSharing name initScope (m(name := sc)))),
        Some (snd (initializeSharing name initScope (m(name := sc)))))"
    if "m name = JUndefined"
    using that by (intro init_delegates) simp
  have 2: "init initializeSharing name sc initScope (Some m) =
          (Inl (Error ''Container initialization failed as it has already been initialized with a different share scope''),
           Some m)" if "m name = JObj a" "JObj a \<noteq> sc"
    using that by (intro init_throws) simp_all
  have 3: "init initializeSharing name sc initScope (Some m) =
          (map_sum id Some (fst (initializeSharing name initScope m)),
           Some (snd (initializeSharing name initScope m)))" if "m name = sc"
  proof -
    from that have "m(name := sc) = m" by auto
    with init_delegates [of m name sc initializeSharing initScope] that show ?thesis by simp
  qed
  have 4: "init initializeSharing name sc initScope None = (Inr None, None)"
    by (simp add: init_def)
  from 1 2 3 4 show ?thesis by simp
qed


theorem C1_init_share_scope_witness:
  "sample_registry ''other'' = JUndefined
   \<and> init sample_initializeSharing ''other'' (JObj 2) [] (Some sample_registry)
       = (Inr (Some ()), Some (sample_registry(''other'' := JObj 2)))
   \<and> sample_registry ''default'' = JObj 1 \<and> JObj 1 \<noteq> JObj 2
   \<and> init sample_initializeSharing ''default'' (JObj 2) [] (Some sample_registry)
       = (Inl (Error ''Container initialization failed as it has already been initialized with a different share scope''),
          Some sample_registry)
   \<and> init sample_initializeSharing ''default'' (JObj 1) [] (Some sample_registry)
       = (Inr (Some ()), Some sample_registry)"
  using C1_init_share_scope [of sample_registry "''other''" sample_initializeSharing "JObj 2" "[]" 1]
    C1_init_share_scope [of sample_registry "''default''" sample_initializeSharing "JObj 2" "[]" 1]
    C1_init_share_scope [of sample_registry "''default''" sample_initializeSharing "JObj 1" "[]" 1]
  by (simp add: sample_registry_def sample_initializeSharing_def)

section \<open>The lookup \<^verbatim>\<open>get\<close>\<close>

text \<open>
  Claim C2.  For a name that is not a key of \<^verbatim>\<open>moduleMap\<close>, \<^verbatim>\<open>get\<close> returns a
  promise rejected with the Error whose message is \<^verbatim>\<open>Module "<n>" does not exist in
  container.\<close> (\<open>CHR 0x22\<close> is the double quote), and \<^verbatim>\<open>moduleMap\<close> is afterwards what
  it was before.  For a name that is a key, \<^verbatim>\<open>get\<close> gives what the call of that name's
  loader gives (its return value or its exception); the loader runs while the marker
  \<^verbatim>\<open>currentRemoteGetScope\<close> is \<^verbatim>\<open>getScope\<close>.
\<close>

theorem C2_get_missing_module:
  "(moduleMap s n = None \<longrightarrow>
      fst (get invoke n getScope s)
        = Inr (Rejected (Error (''Module '' @ [CHR 0x22] @ n @ [CHR 0x22] @ '' does not exist in container.'')))
      \<and> moduleMap (snd (get invoke n getScope s)) = moduleMap s)
   \<and> (moduleMap s n = Some loader \<longrightarrow>
        fst (get invoke n getScope s)
          = fst (invoke loader (s\<lparr> currentRemoteGetScope := Some getScope \<rparr>)))"
  by (auto simp: get_def Let_def split: prod.splits sum.splits)


theorem C2_get_missing_module_witness:
  "moduleMap sample_container ''missing'' = None
   \<and> fst (get sample_invoke ''missing'' ''scope'' sample_container)
       = Inr (Rejected (Error (''Module '' @ [CHR 0x22] @ ''missing'' @ [CHR 0x22]
                               @ '' does not exist in container.'')))
   \<and> moduleMap (snd (get sample_invoke ''missing'' ''scope'' sample_container))
       = moduleMap sample_container
   \<and> moduleMap sample_container ''./shared'' = Some 7
   \<and> fst (get sample_invoke ''./shared'' ''scope'' sample_container) = Inr (Fulfilled 7)"
  using C2_get_missing_module [of sample_container "''missing''" sample_invoke "''scope''" 7]
    C2_get_missing_module [of sample_container "''./shared''" sample_invoke "''scope''" 7]
  by (simp add: sample_container_def sample_invoke_def)

section \<open>The loaders of \<^verbatim>\<open>moduleMap\<close>\<close>

text \<open>
  Claim C9, as stated, for the exposed entry \<^verbatim>\<open>"./shared": ["./a", "./b"]\<close> with both
  import targets resolved: the loader's promise fulfils with the accessor, and the
  accessor, having required \<^verbatim>\<open>./a\<close> and then \<^verbatim>\<open>./b\<close>, yields the exports object of
  \<^verbatim>\<open>./b\<close> alone, which is not the array of the two exports objects.
\<close>

theorem C9_not_an_array_counterexample:
  "getter sample_getModule sample_block
     = Inr (''./shared'',
            ReturnBlockPromiseThen sample_block [(Module_A, ''./a''), (Module_B, ''./b'')])
   \<and> run_loader sample_load_block sample_missingModuleError
         (ReturnBlockPromiseThen sample_block [(Module_A, ''./a''), (Module_B, ''./b'')]) []
       = (Inr (Fulfilled [(Module_A, ''./a''), (Module_B, ''./b'')]), [])
   \<and> invoke_accessor sample_require [(Module_A, ''./a''), (Module_B, ''./b'')] []
       = (Inr (Some (Exports ''exports of b'')), [Module_A, Module_B])
   \<and> Exports ''exports of b'' \<noteq> ArrayValue [Exports ''exports of a'', Exports ''exports of b'']"
  by (simp add: sample_block_def sample_getModule_def sample_load_block_def sample_require_def
      sample_exports_def container_eval_simps)

text \<open>
  Claim C9, amended.  For an exposed entry with at least one import target, all of them
  resolved at build time, the emitted loader returns the block's promise chained with the
  accessor; when the block loads and the accessor is invoked (every module evaluating to
  its exports object), it evaluates every import target, one after the other in
  declaration order, each in the state that the one before has left, and yields the exports
  object of the last import target.  If some target did not resolve at build time, the
  emitted loader is the missing-module block, naming all requests joined by \<^verbatim>\<open>", "\<close>,
  and calling it throws the missing-module error.  For an exposed entry without any import
  target no loader is emitted: the code generation of the block, and so of every list of
  blocks that contains it, throws a TypeError.
\<close>

theorem C9_loader_yields_last_export:
  "(dependencies block = d # ds
      \<and> (\<forall>dep \<in> set (d # ds). getModule dep = Some (module_of dep))
      \<and> load_block block w = (None, w')
      \<and> (\<forall>m v. fst (require m v) = Inr (exports_of m)) \<longrightarrow>
    getter getModule block
      = Inr (exposedName d,
             ReturnBlockPromiseThen block (map (\<lambda>dep. (module_of dep, userRequest dep)) (d # ds)))
    \<and> run_loader load_block missingModuleError
          (ReturnBlockPromiseThen block (map (\<lambda>dep. (module_of dep, userRequest dep)) (d # ds))) w
        = (Inr (Fulfilled (map (\<lambda>dep. (module_of dep, userRequest dep)) (d # ds))), w')
    \<and> invoke_accessor require (map (\<lambda>dep. (module_of dep, userRequest dep)) (d # ds)) w'
        = (Inr (Some (Exports (exports_of (module_of (last (d # ds)))))),
           foldl (\<lambda>v dep. snd (require (module_of dep) v)) w' (d # ds)))
   \<and> (dependencies block = d # ds \<and> (\<exists>dep \<in> set (d # ds). getModule dep = None) \<longrightarrow>
       getter getModule block
         = Inr (exposedName d,
                ThrowMissingModuleErrorBlock (join_comma (map userRequest (d # ds))))
       \<and> run_loader load_block missingModuleError
             (ThrowMissingModuleErrorBlock (join_comma (map userRequest (d # ds)))) w
           = (Inl (missingModuleError (join_comma (map userRequest (d # ds)))), w))
   \<and> (dependencies block = [] \<longrightarrow>
       getter getModule block
         = Inl (TypeError ''Cannot read properties of undefined (reading 'name')'')
       \<and> (block \<in> set blocks \<longrightarrow>
            getters getModule blocks
              = Inl (TypeError ''Cannot read properties of undefined (reading 'name')'')))"
proof -
  let ?ms = "map (\<lambda>dep. (module_of dep, userRequest dep)) (d # ds)"
  have a: "getter getModule block = Inr (exposedName d, ReturnBlockPromiseThen block ?ms)"
    if "dependencies block = d # ds" "\<forall>dep \<in> set (d # ds). getModule dep = Some (module_of dep)"
    using that getter_resolved [of block d ds getModule module_of] by blast
  have b: "run_loader load_block missingModuleError (ReturnBlockPromiseThen block ?ms) w
             = (Inr (Fulfilled ?ms), w')"
    if "load_block block w = (None, w')"
    using that by (simp add: run_loader_def)
  have c: "invoke_accessor require ?ms w'
             = (Inr (Some (Exports (exports_of (module_of (last (d # ds)))))),
                foldl (\<lambda>v dep. snd (require (module_of dep) v)) w' (d # ds))"
    if "\<forall>m v. fst (require m v) = Inr (exports_of m)"
  proof -
    have "fst (last ?ms) = module_of (last (d # ds))"
      by (simp only: last_map [of "d # ds", OF list.distinct(2)] fst_conv)
    with comma_expression_last [of require exports_of ?ms None w'] that
    have "fst (invoke_accessor require ?ms w')
            = Inr (Some (Exports (exports_of (module_of (last (d # ds))))))"
      by (simp add: invoke_accessor_def del: last.simps list.map)
    moreover have "map fst ?ms = map module_of (d # ds)"
      by (simp add: comp_def)
    with comma_expression_state [of require exports_of ?ms None w'] that
    have "snd (invoke_accessor require ?ms w')
            = foldl (\<lambda>v dep. snd (require (module_of dep) v)) w' (d # ds)"
      by (simp only: invoke_accessor_def foldl_map)
    ultimately show ?thesis by (simp only: prod_eq_iff fst_conv snd_conv simp_thms)
  qed
  have e: "getter getModule block
         = Inr (exposedName d,
                ThrowMissingModuleErrorBlock (join_comma (map userRequest (d # ds))))"
    if "dependencies block = d # ds" "\<exists>dep \<in> set (d # ds). getModule dep = None"
    using that getter_missing [of block d ds _ getModule] by blast
  have f: "run_loader load_block missingModuleError
             (ThrowMissingModuleErrorBlock (join_comma (map userRequest (d # ds)))) w
           = (Inl (missingModuleError (join_comma (map userRequest (d # ds)))), w)"
    by (simp add: run_loader_def)
  note g = getter_no_import [of block getModule] getters_no_import [of block blocks getModule]
  from a b c e f g show ?thesis by blast
qed

theorem C9_loader_yields_last_export_witness:
  "dependencies sample_block
     = [\<lparr> exposedName = ''./shared'', userRequest = ''./a'', loc_index = 0 \<rparr>,
        \<lparr> exposedName = ''./shared'', userRequest = ''./b'', loc_index = 1 \<rparr>]
   \<and> getter sample_getModule sample_block
       = Inr (''./shared'',
              ReturnBlockPromiseThen sample_block [(Module_A, ''./a''), (Module_B, ''./b'')])
   \<and> invoke_accessor sample_require [(Module_A, ''./a''), (Module_B, ''./b'')] []
       = (Inr (Some (Exports ''exports of b'')), [Module_A, Module_B])
   \<and> dependencies sample_block_missing
       = [\<lparr> exposedName = ''./shared'', userRequest = ''./a'', loc_index = 0 \<rparr>,
          \<lparr> exposedName = ''./shared'', userRequest = ''./c'', loc_index = 1 \<rparr>]
   \<and> sample_getModule \<lparr> exposedName = ''./shared'', userRequest = ''./c'', loc_index = 1 \<rparr> = None
   \<and> getter sample_getModule sample_block_missing
       = Inr (''./shared'', ThrowMissingModuleErrorBlock ''./a, ./c'')
   \<and> run_loader sample_load_block sample_missingModuleError
         (ThrowMissingModuleErrorBlock ''./a, ./c'') []
       = (Inl (Error ''Cannot find module ./a, ./c''), [])
   \<and> dependencies (new_block (''./none'', \<lparr> expose_import = [], expose_name = None \<rparr>)) = []
   \<and> getter sample_getModule (new_block (''./none'', \<lparr> expose_import = [], expose_name = None \<rparr>))
       = Inl (TypeError ''Cannot read properties of undefined (reading 'name')'')
   \<and> getters sample_getModule
         (build [(''./shared'', \<lparr> expose_import = [''./a'', ''./b''], expose_name = None \<rparr>),
                 (''./none'', \<lparr> expose_import = [], expose_name = None \<rparr>)])
       = Inl (TypeError ''Cannot read properties of undefined (reading 'name')'')"
proof -
  let ?none = "new_block (''./none'', \<lparr> expose_import = [], expose_name = None \<rparr>)"
  let ?blocks = "build [(''./shared'', \<lparr> expose_import = [''./a'', ''./b''], expose_name = None \<rparr>),
                 (''./none'', \<lparr> expose_import = [], expose_name = None \<rparr>)]"
  have n: "dependencies ?none = []" "?none \<in> set ?blocks"
    by (simp_all add: new_block_def build_def)
  from n C9_loader_yields_last_export [of ?none
      "\<lparr> exposedName = ''./shared'', userRequest = ''./a'', loc_index = 0 \<rparr>" "[]"
      sample_getModule "\<lambda>dep. Module_A"
      sample_load_block "[]" "[]" sample_require sample_exports sample_missingModuleError ?blocks]
  have c: "getter sample_getModule ?none
       = Inl (TypeError ''Cannot read properties of undefined (reading 'name')'')
     \<and> getters sample_getModule ?blocks
       = Inl (TypeError ''Cannot read properties of undefined (reading 'name')'')"
    by blast
  have ab: "dependencies sample_block
     = [\<lparr> exposedName = ''./shared'', userRequest = ''./a'', loc_index = 0 \<rparr>,
        \<lparr> exposedName = ''./shared'', userRequest = ''./b'', loc_index = 1 \<rparr>]
   \<and> getter sample_getModule sample_block
       = Inr (''./shared'',
              ReturnBlockPromiseThen sample_block [(Module_A, ''./a''), (Module_B, ''./b'')])
   \<and> invoke_accessor sample_require [(Module_A, ''./a''), (Module_B, ''./b'')] []
       = (Inr (Some (Exports ''exports of b'')), [Module_A, Module_B])
   \<and> dependencies sample_block_missing
       = [\<lparr> exposedName = ''./shared'', userRequest = ''./a'', loc_index = 0 \<rparr>,
          \<lparr> exposedName = ''./shared'', userRequest = ''./c'', loc_index = 1 \<rparr>]
   \<and> sample_getModule \<lparr> exposedName = ''./shared'', userRequest = ''./c'', loc_index = 1 \<rparr> = None
   \<and> getter sample_getModule sample_block_missing
       = Inr (''./shared'', ThrowMissingModuleErrorBlock ''./a, ./c'')
   \<and> run_loader sample_load_block sample_missingModuleError
         (ThrowMissingModuleErrorBlock ''./a, ./c'') []
       = (Inl (Error ''Cannot find module ./a, ./c''), [])"
    using C9_loader_yields_last_export [of sample_block
      "\<lparr> exposedName = ''./shared'', userRequest = ''./a'', loc_index = 0 \<rparr>"
      "[\<lparr> exposedName = ''./shared'', userRequest = ''./b'', loc_index = 1 \<rparr>]"
      sample_getModule "\<lambda>dep. if userRequest dep = ''./a'' then Module_A else Module_B"
      sample_load_block "[]" "[]" sample_require sample_exports sample_missingModuleError "[]"]
    C9_loader_yields_last_export [of sample_block_missing
      "\<lparr> exposedName = ''./shared'', userRequest = ''./a'', loc_index = 0 \<rparr>"
      "[\<lparr> exposedName = ''./shared'', userRequest = ''./c'', loc_index = 1 \<rparr>]"
      sample_getModule "\<lambda>dep. Module_A"
      sample_load_block "[]" "[]" sample_require sample_exports sample_missingModuleError "[]"]
    by (simp add: sample_block_def sample_block_missing_def sample_getModule_def
      sample_load_block_def sample_require_def sample_exports_def
      sample_missingModuleError_def new_block_def enumerate_simps)
  from n(1) c ab show ?thesis by simp
qed

section \<open>Requests that are paths\<close>

text \<open>
  Claim C5.  Let the hooks work on the three tiers that \<^verbatim>\<open>resolveMatchedConfigs\<close> made of
  the configured entries, with a resolver that yields absolute paths, and take an entry
  without configured \<^verbatim>\<open>requiredVersion\<close> and without \<^verbatim>\<open>packageName\<close>.  An entry whose
  key is a relative request lives in \<open>resolved\<close> under its resolved, absolute path, and
  in no other tier; an entry whose key is an absolute path lives in \<open>resolved\<close> under that
  path.  Whenever a hook creates the module of such an entry for a request that is a
  relative or absolute path (the \<^verbatim>\<open>createModule\<close> hook for a resource of \<open>resolved\<close>, the
  \<^verbatim>\<open>factorize\<close> hook for an exact key or a prefix), the module's required version is
  undefined, no warning is added, and the result is the same whatever
  \<^verbatim>\<open>getDescriptionFile\<close> would answer: no package name is inferred and no description
  file is consulted.
\<close>

theorem C5_path_requests_without_inference:
  "resolveMatchedConfigs env configs c0 = (M, c0')
   \<and> (\<forall>request p. res_result (env_resolve env (env_compiler_context env) request) = IR_path p
          \<longrightarrow> is_absolute_request p)
   \<and> requiredVersion options = RV_undefined \<and> packageName options = None
   \<longrightarrow>
   (resolved M resource = Some options \<longrightarrow>
      is_absolute_request resource
      \<and> without_inference
           (consume_createModule env (resolved M) ctx resource OtherDependency c) c
      \<and> consume_createModule (env\<lparr> env_getDescriptionFile := g \<rparr>) (resolved M) ctx resource
           OtherDependency c
         = consume_createModule env (resolved M) ctx resource OtherDependency c)
   \<and> ((is_relative_request request \<or> is_absolute_request request)
        \<and> unresolved M request = Some options \<longrightarrow>
      without_inference
        (consume_factorize env (unresolved M) (prefixed M) ctx request OtherDependency c) c
      \<and> consume_factorize (env\<lparr> env_getDescriptionFile := g \<rparr>) (unresolved M) (prefixed M) ctx
           request OtherDependency c
         = consume_factorize env (unresolved M) (prefixed M) ctx request OtherDependency c)
   \<and> ((is_relative_request request \<or> is_absolute_request request)
        \<and> unresolved M request = None
        \<and> find (\<lambda>(p, options). prefix p request) (prefixed M) = Some (pfx, options) \<longrightarrow>
      without_inference
        (consume_factorize env (unresolved M) (prefixed M) ctx request OtherDependency c) c
      \<and> consume_factorize (env\<lparr> env_getDescriptionFile := g \<rparr>) (unresolved M) (prefixed M) ctx
           request OtherDependency c
         = consume_factorize env (unresolved M) (prefixed M) ctx request OtherDependency c)
   \<and> ((key, config) \<in> set configs \<and> is_relative_request key
        \<and> res_err (env_resolve env (env_compiler_context env) key) = None
        \<and> res_result (env_resolve env (env_compiler_context env) key) = IR_path path \<longrightarrow>
      path \<in> dom (resolved M) \<and> is_absolute_request path
      \<and> unresolved M key = None \<and> key \<notin> fst ` set (prefixed M))
   \<and> ((key, config) \<in> set configs \<and> is_absolute_path key \<longrightarrow> key \<in> dom (resolved M))"
proof (intro impI, elim conjE)
  assume M: "resolveMatchedConfigs env configs c0 = (M, c0')"
    and abs: "\<forall>request p. res_result (env_resolve env (env_compiler_context env) request) = IR_path p
          \<longrightarrow> is_absolute_request p"
    and v: "requiredVersion options = RV_undefined" and n: "packageName options = None"
  from abs have abs': "\<And>request p.
      res_result (env_resolve env (env_compiler_context env) request) = IR_path p
        \<Longrightarrow> is_absolute_request p"
    by blast
  from resolveMatchedConfigs_routed [of env configs c0, OF abs'] M
  have w: "well_routed M" by simp
  have fstM: "fst (resolveMatchedConfigs env configs c0) = M" using M by simp
  have p1: "is_absolute_request resource
      \<and> without_inference
           (consume_createModule env (resolved M) ctx resource OtherDependency c) c
      \<and> consume_createModule (env\<lparr> env_getDescriptionFile := g \<rparr>) (resolved M) ctx resource
           OtherDependency c
         = consume_createModule env (resolved M) ctx resource OtherDependency c"
    if r: "resolved M resource = Some options"
  proof -
    from w r have a: "is_absolute_request resource"
      by (auto simp: well_routed_def)
    from a r show ?thesis
      by (simp add: consume_createModule_def absolute_request_without_inference [OF v n a])
  qed
  have p2: "without_inference
        (consume_factorize env (unresolved M) (prefixed M) ctx request OtherDependency c) c
      \<and> consume_factorize (env\<lparr> env_getDescriptionFile := g \<rparr>) (unresolved M) (prefixed M) ctx
           request OtherDependency c
         = consume_factorize env (unresolved M) (prefixed M) ctx request OtherDependency c"
    if path: "is_relative_request request \<or> is_absolute_request request"
      and u: "unresolved M request = Some options"
  proof -
    from w u have "\<not> is_relative_request request"
      by (auto simp: well_routed_def)
    with path have a: "is_absolute_request request" by blast
    from u show ?thesis
      by (simp add: consume_factorize_def absolute_request_without_inference [OF v n a])
  qed
  have p3: "without_inference
        (consume_factorize env (unresolved M) (prefixed M) ctx request OtherDependency c) c
      \<and> consume_factorize (env\<lparr> env_getDescriptionFile := g \<rparr>) (unresolved M) (prefixed M) ctx
           request OtherDependency c
         = consume_factorize env (unresolved M) (prefixed M) ctx request OtherDependency c"
    if path: "is_relative_request request \<or> is_absolute_request request"
      and u: "unresolved M request = None"
      and f: "find (\<lambda>(p, options). prefix p request) (prefixed M) = Some (pfx, options)"
  proof -
    let ?config = "options\<lparr> import := (case import options of
                                       None \<Rightarrow> None
                                     | Some i \<Rightarrow> if i = [] then None
                                                else Some (i @ drop (length pfx) request)),
                          shareKey := shareKey options @ drop (length pfx) request \<rparr>"
    from f have mem: "(pfx, options) \<in> set (prefixed M)" and pre: "prefix pfx request"
      by (auto simp: find_Some_iff in_set_conv_nth)
    from w mem have "\<not> is_relative_request pfx" "pfx \<noteq> []" "last pfx = CHR ''/''"
      by (auto simp: well_routed_def)
    with prefix_of_relative_request [OF pre] have "\<not> is_relative_request request" by blast
    with path have a: "is_absolute_request request" by blast
    have v': "requiredVersion ?config = RV_undefined" and n': "packageName ?config = None"
      using v n by simp_all
    have wi: "without_inference
                (created (createConsumeSharedModule env ctx request ?config c)) c"
      by (rule absolute_request_without_inference(1) [OF v' n' a])
    have ind: "createConsumeSharedModule (env\<lparr> env_getDescriptionFile := g \<rparr>) ctx request
                 ?config c
               = createConsumeSharedModule env ctx request ?config c"
      by (rule absolute_request_without_inference(2) [OF v' n' a])
    have l1: "prefixed_loop env (prefixed M) ctx request c
                = created (createConsumeSharedModule env ctx request ?config c)"
      by (rule prefixed_loop_find [OF f])
    have l2: "prefixed_loop (env\<lparr> env_getDescriptionFile := g \<rparr>) (prefixed M) ctx request c
                = created (createConsumeSharedModule (env\<lparr> env_getDescriptionFile := g \<rparr>)
                             ctx request ?config c)"
      by (rule prefixed_loop_find [OF f])
    from u wi ind l1 l2 show ?thesis by (simp add: consume_factorize_def)
  qed
  have p4: "path \<in> dom (resolved M) \<and> is_absolute_request path
      \<and> unresolved M key = None \<and> key \<notin> fst ` set (prefixed M)"
    if k: "(key, config) \<in> set configs" and rel: "is_relative_request key"
      and e: "res_err (env_resolve env (env_compiler_context env) key) = None"
      and r: "res_result (env_resolve env (env_compiler_context env) key) = IR_path path"
  proof -
    from relative_key_is_resolved [OF k rel e r, of c0] fstM
    have "path \<in> dom (resolved M)" by simp
    moreover from abs' [OF r] have "is_absolute_request path" .
    moreover from w rel have "unresolved M key = None"
      by (auto simp: well_routed_def dom_def)
    moreover from w rel have "key \<notin> fst ` set (prefixed M)"
      by (auto simp: well_routed_def)
    ultimately show ?thesis by blast
  qed
  have p5: "key \<in> dom (resolved M)"
    if k: "(key, config) \<in> set configs" and a: "is_absolute_path key"
    using absolute_key_is_resolved [OF k a, of env c0] fstM by simp
  from p1 p2 p3 p4 p5
  show "(resolved M resource = Some options \<longrightarrow>
      is_absolute_request resource
      \<and> without_inference
           (consume_createModule env (resolved M) ctx resource OtherDependency c) c
      \<and> consume_createModule (env\<lparr> env_getDescriptionFile := g \<rparr>) (resolved M) ctx resource
           OtherDependency c
         = consume_createModule env (resolved M) ctx resource OtherDependency c)
   \<and> ((is_relative_request request \<or> is_absolute_request request)
        \<and> unresolved M request = Some options \<longrightarrow>
      without_inference
        (consume_factorize env (unresolved M) (prefixed M) ctx request OtherDependency c) c
      \<and> consume_factorize (env\<lparr> env_getDescriptionFile := g \<rparr>) (unresolved M) (prefixed M) ctx
           request OtherDependency c
         = consume_factorize env (unresolved M) (prefixed M) ctx request OtherDependency c)
   \<and> ((is_relative_request request \<or> is_absolute_request request)
        \<and> unresolved M request = None
        \<and> find (\<lambda>(p, options). prefix p request) (prefixed M) = Some (pfx, options) \<longrightarrow>
      without_inference
        (consume_factorize env (unresolved M) (prefixed M) ctx request OtherDependency c) c
      \<and> consume_factorize (env\<lparr> env_getDescriptionFile := g \<rparr>) (unresolved M) (prefixed M) ctx
           request OtherDependency c
         = consume_factorize env (unresolved M) (prefixed M) ctx request OtherDependency c)
   \<and> ((key, config) \<in> set configs \<and> is_relative_request key
        \<and> res_err (env_resolve env (env_compiler_context env) key) = None
        \<and> res_result (env_resolve env (env_compiler_context env) key) = IR_path path \<longrightarrow>
      path \<in> dom (resolved M) \<and> is_absolute_request path
      \<and> unresolved M key = None \<and> key \<notin> fst ` set (prefixed M))
   \<and> ((key, config) \<in> set configs \<and> is_absolute_path key \<longrightarrow> key \<in> dom (resolved M))"
    by blast
qed

theorem C5_path_requests_without_inference_witness:
  "resolved sample_matched ''/project/src/util.js'' = Some (sample_consume ''./src/util'' ''util'')
   \<and> is_relative_request ''./src/util''
   \<and> ''/project/src/util.js'' \<in> dom (resolved sample_matched)
   \<and> unresolved sample_matched ''./src/util'' = None
   \<and> without_inference
        (consume_createModule sample_collaborators (resolved sample_matched) ''/project/src''
           ''/project/src/util.js'' OtherDependency sample_compilation) sample_compilation
   \<and> consume_createModule
         (sample_collaborators\<lparr> env_getDescriptionFile := sample_no_description_file \<rparr>)
         (resolved sample_matched) ''/project/src'' ''/project/src/util.js'' OtherDependency
         sample_compilation
       = consume_createModule sample_collaborators (resolved sample_matched) ''/project/src''
           ''/project/src/util.js'' OtherDependency sample_compilation
   \<and> is_absolute_path ''/project/lib/tool.js''
   \<and> ''/project/lib/tool.js'' \<in> dom (resolved sample_matched)
   \<and> is_absolute_request ''C:tool''
   \<and> unresolved sample_matched ''C:tool'' = Some (sample_consume ''C:tool'' ''tool2'')
   \<and> without_inference
        (consume_factorize sample_collaborators (unresolved sample_matched)
           (prefixed sample_matched) ''/project/src'' ''C:tool'' OtherDependency
           sample_compilation) sample_compilation
   \<and> is_absolute_request ''C:lib/x''
   \<and> find (\<lambda>(p, options). prefix p ''C:lib/x'') (prefixed sample_matched)
       = Some (''C:lib/'', sample_consume ''./src/lib/'' ''lib/'')
   \<and> without_inference
        (consume_factorize sample_collaborators (unresolved sample_matched)
           (prefixed sample_matched) ''/project/src'' ''C:lib/x'' OtherDependency
           sample_compilation) sample_compilation"
proof -
  let ?R = "resolveMatchedConfigs sample_collaborators sample_configs sample_compilation"
  have M: "?R = (sample_matched, snd ?R)"
    by (simp add: sample_matched_def)
  have h: "\<forall>request p.
      res_result (env_resolve sample_collaborators (env_compiler_context sample_collaborators)
                    request) = IR_path p \<longrightarrow> is_absolute_request p"
    by (auto simp: sample_collaborators_def sample_resolve_def is_absolute_request_def
        split: if_splits)
  have v: "requiredVersion (sample_consume a b) = RV_undefined
           \<and> packageName (sample_consume a b) = None" for a b
    by (simp add: sample_consume_def)
  have res: "resolved sample_matched ''/project/src/util.js''
               = Some (sample_consume ''./src/util'' ''util'')"
    and unr: "unresolved sample_matched ''C:tool'' = Some (sample_consume ''C:tool'' ''tool2'')"
    and unr': "unresolved sample_matched ''C:lib/x'' = None"
    and pre: "find (\<lambda>(p, options). prefix p ''C:lib/x'') (prefixed sample_matched)
                = Some (''C:lib/'', sample_consume ''./src/lib/'' ''lib/'')"
    by (simp_all add: sample_matched_def sample_configs_def resolveMatchedConfigs_def
        match_config_def is_relative_request_def is_absolute_path_def is_letter_def
        backslash_def sample_collaborators_def sample_resolve_def Let_def)
  have k: "(''./src/util'', sample_consume ''./src/util'' ''util'') \<in> set sample_configs"
    and k': "(''/project/lib/tool.js'', sample_consume ''/project/lib/tool.js'' ''tool'')
               \<in> set sample_configs"
    by (simp_all add: sample_configs_def)
  have r: "res_err (env_resolve sample_collaborators (env_compiler_context sample_collaborators)
                     ''./src/util'') = None
           \<and> res_result (env_resolve sample_collaborators
                           (env_compiler_context sample_collaborators) ''./src/util'')
               = IR_path ''/project/src/util.js''"
    by (simp add: sample_collaborators_def sample_resolve_def)
  have pat: "is_relative_request ''./src/util'' \<and> is_absolute_path ''/project/lib/tool.js''
             \<and> is_absolute_request ''C:tool'' \<and> is_absolute_request ''C:lib/x''"
    by (simp add: is_relative_request_def is_absolute_path_def is_absolute_request_def
        is_letter_def)
  note T = C5_path_requests_without_inference
    [where env = sample_collaborators and configs = sample_configs and ?c0.0 = sample_compilation
       and M = sample_matched and ?c0' = "snd ?R" and ctx = "''/project/src''"
       and c = sample_compilation and g = sample_no_description_file]
  from T [where options = "sample_consume ''./src/util'' ''util''"
            and resource = "''/project/src/util.js''" and key = "''./src/util''"
            and config = "sample_consume ''./src/util'' ''util''"
            and path = "''/project/src/util.js''" and request = "[]" and pfx = "[]"]
    M h v res k r pat
  have 1: "''/project/src/util.js'' \<in> dom (resolved sample_matched)
   \<and> unresolved sample_matched ''./src/util'' = None
   \<and> without_inference
        (consume_createModule sample_collaborators (resolved sample_matched) ''/project/src''
           ''/project/src/util.js'' OtherDependency sample_compilation) sample_compilation
   \<and> consume_createModule
         (sample_collaborators\<lparr> env_getDescriptionFile := sample_no_description_file \<rparr>)
         (resolved sample_matched) ''/project/src'' ''/project/src/util.js'' OtherDependency
         sample_compilation
       = consume_createModule sample_collaborators (resolved sample_matched) ''/project/src''
           ''/project/src/util.js'' OtherDependency sample_compilation"
    by blast
  from T [where options = "sample_consume ''C:tool'' ''tool2''"
            and resource = "[]" and key = "''/project/lib/tool.js''"
            and config = "sample_consume ''/project/lib/tool.js'' ''tool''"
            and path = "[]" and request = "''C:tool''" and pfx = "[]"]
    M h v unr k' pat
  have 2: "''/project/lib/tool.js'' \<in> dom (resolved sample_matched)
   \<and> without_inference
        (consume_factorize sample_collaborators (unresolved sample_matched)
           (prefixed sample_matched) ''/project/src'' ''C:tool'' OtherDependency
           sample_compilation) sample_compilation"
    by blast
  from T [where options = "sample_consume ''./src/lib/'' ''lib/''"
            and resource = "[]" and key = "[]"
            and config = "sample_consume ''./src/lib/'' ''lib/''"
            and path = "[]" and request = "''C:lib/x''" and pfx = "''C:lib/''"]
    M h v unr' pre pat
  have 3: "without_inference
        (consume_factorize sample_collaborators (unresolved sample_matched)
           (prefixed sample_matched) ''/project/src'' ''C:lib/x'' OtherDependency
           sample_compilation) sample_compilation"
    by blast
  from 1 2 3 res unr pre pat show ?thesis by simp
qed

section \<open>Failures of the version determination\<close>

text \<open>
  Claim C6 at an entry without configured required version, requested as
  \<^verbatim>\<open>lodash/fp\<close> from the directory \<^verbatim>\<open>/nowhere\<close>, above which there is no
  \<^verbatim>\<open>package.json\<close>: \<^verbatim>\<open>getDescriptionFile\<close> calls back with neither an error nor a
  result, line 229 reads \<^verbatim>\<open>data\<close> of \<^verbatim>\<open>undefined\<close> and throws a TypeError before the
  test of line 230 can push the warning \<^verbatim>\<open>Unable to find description file in
  /nowhere.\<close>; no warning is pushed and no ConsumeSharedModule is created.
\<close>

theorem C6_absent_description_file_throws:
  "requiredVersion (sample_consume ''lodash'' ''lodash'') = RV_undefined
   \<and> packageName (sample_consume ''lodash'' ''lodash'') = None
   \<and> extract_package_name ''lodash/fp'' = Some ''lodash''
   \<and> env_getDescriptionFile sample_collaborators ''/nowhere'' = DescriptionNoResult
   \<and> createConsumeSharedModule sample_collaborators ''/nowhere'' ''lodash/fp''
         (sample_consume ''lodash'' ''lodash'') sample_compilation
       = (Inl (TypeError ''Cannot destructure property 'data' of 'result' as it is undefined.''),
          sample_compilation)
   \<and> warnings sample_compilation = []
   \<and> \<not> only_warning sample_collaborators ''/nowhere'' ''lodash/fp''
          (sample_consume ''lodash'' ''lodash'') sample_compilation
          ''Unable to find description file in /nowhere.''"
  by (simp add: only_warning_def sample_consume_simps consume_eval_simps)

section \<open>Prefix matches\<close>

text \<open>
  Claim C8, as stated, with the prefixes \<^verbatim>\<open>shared/\<close> and \<^verbatim>\<open>shared/utils/\<close> configured
  in this order: the request \<^verbatim>\<open>shared/utils/format\<close> starts with the prefix
  \<^verbatim>\<open>shared/utils/\<close>, whose import target is \<^verbatim>\<open>./src/utils/\<close> and whose share key is
  \<^verbatim>\<open>utils-lib/\<close>, yet the module is created from the configuration of \<^verbatim>\<open>shared/\<close>:
  import \<^verbatim>\<open>./src/shared/utils/format\<close> and share key \<^verbatim>\<open>shared/utils/format\<close>.
\<close>

theorem C8_overlapping_prefixes_counterexample:
  "prefix ''shared/utils/'' ''shared/utils/format''
   \<and> map fst sample_prefixed = [''shared/'', ''shared/utils/'']
   \<and> import (snd (sample_prefixed ! 1)) = Some ''./src/utils/''
   \<and> shareKey (snd (sample_prefixed ! 1)) = ''utils-lib/''
   \<and> map_sum id (map_option (\<lambda>m. (import (csm_options m), shareKey (csm_options m))))
         (fst (consume_factorize sample_collaborators Map.empty sample_prefixed ''/project/src''
                 ''shared/utils/format'' OtherDependency sample_compilation))
       = Inr (Some (Some ''./src/shared/utils/format'', ''shared/utils/format''))"
  by (simp add: sample_prefixed_def consume_factorize_def sample_consume_simps
      consume_eval_simps Let_def)

text \<open>
  Claim C8, amended.  For a request that is no exact unresolved key and whose dependency
  is neither a fallback nor a provide-for-shared dependency, let \<open>pfx\<close> be the first
  configured prefix, in iteration order, that the request starts with.  The hook returns
  what \<^verbatim>\<open>createConsumeSharedModule\<close> returns for that prefix's configuration with the
  import target extended by the remainder of the request (undefined if there is no import
  target) and the share key extended by the same remainder.  A ConsumeSharedModule is
  created at least when the required version is configured, or needs no description file
  (no \<^verbatim>\<open>packageName\<close> and the request is absolute or yields no package name), or the
  description-file lookup answers with an error or a result.  Every module so created has
  that share key; its import is that import target when the fallback resolved, and
  undefined otherwise.
\<close>

theorem C8_prefix_match:
  "dependency = OtherDependency \<and> unresolvedConsumes request = None
     \<and> find (\<lambda>(p, options). prefix p request) prefixedConsumes = Some (pfx, options) \<longrightarrow>
   consume_factorize env unresolvedConsumes prefixedConsumes ctx request dependency c
     = created (createConsumeSharedModule env ctx request
         (options\<lparr> import := (case import options of
                                None \<Rightarrow> None
                              | Some i \<Rightarrow> if i = [] then None
                                         else Some (i @ drop (length pfx) request)),
                   shareKey := shareKey options @ drop (length pfx) request \<rparr>) c)
   \<and> (requiredVersion options \<noteq> RV_undefined
        \<or> (packageName options = None
            \<and> (is_absolute_request request \<or> extract_package_name request = None))
        \<or> env_getDescriptionFile env ctx \<noteq> DescriptionNoResult \<longrightarrow>
       (\<exists>m c'. consume_factorize env unresolvedConsumes prefixedConsumes ctx request dependency c
                 = (Inr (Some m), c')))
   \<and> (\<forall>m c'. consume_factorize env unresolvedConsumes prefixedConsumes ctx request dependency c
                 = (Inr (Some m), c') \<longrightarrow>
         shareKey (csm_options m) = shareKey options @ drop (length pfx) request
         \<and> csm_importResolved m
             = fst (resolve_fallback env ctx request
                 (options\<lparr> import := (case import options of
                                        None \<Rightarrow> None
                                      | Some i \<Rightarrow> if i = [] then None
                                                 else Some (i @ drop (length pfx) request)),
                           shareKey := shareKey options @ drop (length pfx) request \<rparr>) c)
         \<and> import (csm_options m)
             = (if truthy_resolved (csm_importResolved m)
                then (case import options of
                        None \<Rightarrow> None
                      | Some i \<Rightarrow> if i = [] then None else Some (i @ drop (length pfx) request))
                else None))"
proof (intro impI, elim conjE)
  let ?config = "options\<lparr> import := (case import options of
                                   None \<Rightarrow> None
                                 | Some i \<Rightarrow> if i = [] then None
                                            else Some (i @ drop (length pfx) request)),
                      shareKey := shareKey options @ drop (length pfx) request \<rparr>"
  let ?hook = "consume_factorize env unresolvedConsumes prefixedConsumes ctx request dependency c"
  let ?r = "createConsumeSharedModule env ctx request ?config c"
  assume d: "dependency = OtherDependency" and u: "unresolvedConsumes request = None"
    and f: "find (\<lambda>(p, options). prefix p request) prefixedConsumes = Some (pfx, options)"
  have hook: "?hook = created ?r"
    using d u prefixed_loop_find [OF f, of env ctx c] by (simp add: consume_factorize_def)
  have some: "\<exists>m c'. ?hook = (Inr (Some m), c')"
    if ok: "requiredVersion options \<noteq> RV_undefined
        \<or> (packageName options = None
            \<and> (is_absolute_request request \<or> extract_package_name request = None))
        \<or> env_getDescriptionFile env ctx \<noteq> DescriptionNoResult"
  proof -
    have "isl (choose_packageName request ?config c)"
      if "packageName options = None"
        "is_absolute_request request \<or> extract_package_name request = None"
      using that by (auto simp: choose_packageName_def)
    with ok createConsumeSharedModule_throws_iff [of env ctx request ?config c]
    have "\<not> isl (fst ?r)" by auto
    then obtain m where "fst ?r = Inr m"
      by (cases "fst ?r") auto
    from created_Inr [OF this] hook have "?hook = (Inr (Some m), snd ?r)"
      by simp
    then show ?thesis by blast
  qed
  have props: "shareKey (csm_options m) = shareKey options @ drop (length pfx) request
         \<and> csm_importResolved m = fst (resolve_fallback env ctx request ?config c)
         \<and> import (csm_options m)
             = (if truthy_resolved (csm_importResolved m)
                then (case import options of
                        None \<Rightarrow> None
                      | Some i \<Rightarrow> if i = [] then None else Some (i @ drop (length pfx) request))
                else None)"
    if h: "?hook = (Inr (Some m), c')" for m c'
  proof -
    from h hook have "?r = (Inr m, c')"
      by (simp add: created_eq_module)
    from created_module [OF this] show ?thesis by simp
  qed
  from hook some props
  show "?hook = created ?r
   \<and> (requiredVersion options \<noteq> RV_undefined
        \<or> (packageName options = None
            \<and> (is_absolute_request request \<or> extract_package_name request = None))
        \<or> env_getDescriptionFile env ctx \<noteq> DescriptionNoResult \<longrightarrow>
       (\<exists>m c'. ?hook = (Inr (Some m), c')))
   \<and> (\<forall>m c'. ?hook = (Inr (Some m), c') \<longrightarrow>
         shareKey (csm_options m) = shareKey options @ drop (length pfx) request
         \<and> csm_importResolved m = fst (resolve_fallback env ctx request ?config c)
         \<and> import (csm_options m)
             = (if truthy_resolved (csm_importResolved m)
                then (case import options of
                        None \<Rightarrow> None
                      | Some i \<Rightarrow> if i = [] then None else Some (i @ drop (length pfx) request))
                else None))"
    by blast
qed

theorem C8_prefix_match_witness:
  "find (\<lambda>(p, options). prefix p ''shared/utils/format'') sample_prefixed
     = Some (''shared/'', sample_consume ''./src/shared/'' ''shared/'')
   \<and> env_getDescriptionFile sample_collaborators ''/project/src'' \<noteq> DescriptionNoResult
   \<and> (\<exists>m c'. consume_factorize sample_collaborators Map.empty sample_prefixed ''/project/src''
                ''shared/utils/format'' OtherDependency sample_compilation = (Inr (Some m), c')
          \<and> shareKey (csm_options m) = ''shared/utils/format''
          \<and> csm_importResolved m = IR_path ''/project/src/shared/utils/format.js''
          \<and> import (csm_options m) = Some ''./src/shared/utils/format'')"
proof -
  have f: "find (\<lambda>(p, options). prefix p ''shared/utils/format'') sample_prefixed
     = Some (''shared/'', sample_consume ''./src/shared/'' ''shared/'')"
    by (simp add: sample_prefixed_def)
  have g: "env_getDescriptionFile sample_collaborators ''/project/src'' \<noteq> DescriptionNoResult"
    by (simp add: sample_collaborators_def sample_getDescriptionFile_def)
  have r: "fst (resolve_fallback sample_collaborators ''/project/src'' ''shared/utils/format''
                (sample_consume ''./src/shared/'' ''shared/''
                   \<lparr> import := Some ''./src/shared/utils/format'',
                     shareKey := ''shared/utils/format'' \<rparr>) sample_compilation)
           = IR_path ''/project/src/shared/utils/format.js''"
    by (simp add: sample_consume_simps consume_eval_simps)
  note T = C8_prefix_match [of OtherDependency Map.empty "''shared/utils/format''"
      sample_prefixed "''shared/''" "sample_consume ''./src/shared/'' ''shared/''"
      sample_collaborators "''/project/src''" sample_compilation]
  have u: "Map.empty ''shared/utils/format'' = (None :: string ConsumeOptions option)"
    by simp
  from T u f g obtain m c' where
    a: "consume_factorize sample_collaborators Map.empty sample_prefixed ''/project/src''
          ''shared/utils/format'' OtherDependency sample_compilation = (Inr (Some m), c')"
    by blast
  from T u f a
  have b: "shareKey (csm_options m)
             = shareKey (sample_consume ''./src/shared/'' ''shared/'')
                 @ drop (length ''shared/'') ''shared/utils/format''
         \<and> csm_importResolved m
             = fst (resolve_fallback sample_collaborators ''/project/src'' ''shared/utils/format''
                 (sample_consume ''./src/shared/'' ''shared/''
                    \<lparr> import := (case import (sample_consume ''./src/shared/'' ''shared/'') of
                                    None \<Rightarrow> None
                                  | Some i \<Rightarrow> if i = [] then None
                                             else Some (i @ drop (length ''shared/'')
                                                              ''shared/utils/format'')),
                      shareKey := shareKey (sample_consume ''./src/shared/'' ''shared/'')
                                    @ drop (length ''shared/'') ''shared/utils/format'' \<rparr>)
                 sample_compilation)
         \<and> import (csm_options m)
             = (if truthy_resolved (csm_importResolved m)
                then (case import (sample_consume ''./src/shared/'' ''shared/'') of
                        None \<Rightarrow> None
                      | Some i \<Rightarrow> if i = [] then None
                                 else Some (i @ drop (length ''shared/'') ''shared/utils/format''))
                else None)"
    by blast
  from b r
  have "shareKey (csm_options m) = ''shared/utils/format''
          \<and> csm_importResolved m = IR_path ''/project/src/shared/utils/format.js''
          \<and> import (csm_options m) = Some ''./src/shared/utils/format''"
    by (simp add: sample_consume_def)
  with a f g show ?thesis by blast
qed

end
